theory Spec2Isabelle
  imports Complex_Main "HOL-Library.AList"
begin

section \<open>LeadBoost: the lead processing pipeline\<close>

text \<open>
  A shallow embedding of the scorer, the enricher, the scraper, the messenger, the quota
  gate and the token refresh endpoint of the LeadBoost backend.

  Conventions of the embedding.
  \<^item> A Python \<open>float\<close> is a \<open>real\<close>: the confidences and scores are short decimal sums,
    compared with decimal thresholds. The model adds them exactly; the doubles of the
    code can differ from the exact sum in the last place, so a sum that lands on a
    threshold here may fall just beside it there. The statements below that compare a
    confidence with a threshold are about the confidence a tier or a strategy returns.
  \<^item> A Python \<open>str\<close> is a \<open>string\<close>; character classes and case mapping are those of
    ASCII (a character outside ASCII is neither a digit, a space, a letter nor cased).
  \<^item> A nullable column or an \<open>Optional\<close> value is an \<open>option\<close>; Python truthiness
    (\<open>if lead.industry\<close>) is written out: a string is true when it is present and
    not empty.
  \<^item> A \<open>dict\<close> is an association list in insertion order, updated with \<open>AList.update\<close>.
  \<^item> What a function reads from outside the process (an HTTP response, a rendered page,
    a model's answer, the clock, the decoded token) is an argument of its model.
\<close>

subsection \<open>The lead row (core/domain/models/lead.py)\<close>

record lead =
  lead_id :: nat
  organization_id :: nat
  owner_id :: nat
  company_name :: "string option"
  website :: string
  industry :: "string option"
  about_text :: "string option"
  contact_name :: "string option"
  contact_title :: "string option"
  linkedin_url :: "string option"
  employees :: "string option"
  revenue_band :: "string option"
  founded_year :: "int option"
  scrape_confidence :: real
  email_confidence :: real
  enrichment_confidence :: real
  enrichment_source :: string
  created_at :: nat

text \<open>Truthiness of a nullable string: \<open>None\<close> and the empty string are false.\<close>

fun truthy_str :: "string option \<Rightarrow> bool" where
  "truthy_str None = False"
| "truthy_str (Some s) = (s \<noteq> [])"

subsection \<open>Scorer (core/domain/services/scoring.py)\<close>

record scoring_criteria =
  name :: string
  weight :: real
  threshold :: real
  max_score :: real
  description :: string

record score_result =
  total_score :: real
  criteria_scores :: "(string \<times> real) list"
  qualification_label :: string
  raw_score :: real

definition default_criteria :: "scoring_criteria list" where
  "default_criteria =
    [\<lparr>name = ''industry_match'', weight = 0.25, threshold = 0.5, max_score = 25.0,
       description = ''Matches preferred industry''\<rparr>,
     \<lparr>name = ''company_size'', weight = 0.20, threshold = 0.5, max_score = 20.0,
       description = ''Company size within preferred range''\<rparr>,
     \<lparr>name = ''email_quality'', weight = 0.15, threshold = 0.6, max_score = 15.0,
       description = ''Email confidence score''\<rparr>,
     \<lparr>name = ''scrape_quality'', weight = 0.15, threshold = 0.6, max_score = 15.0,
       description = ''Scraping confidence score''\<rparr>,
     \<lparr>name = ''enrichment_quality'', weight = 0.15, threshold = 0.6, max_score = 15.0,
       description = ''Enrichment confidence score''\<rparr>,
     \<lparr>name = ''linkedin_presence'', weight = 0.10, threshold = 0.5, max_score = 10.0,
       description = ''Has LinkedIn profile''\<rparr>]"

definition preferred_industries :: "string list" where
  "preferred_industries =
    [''Software'', ''SaaS'', ''Technology'', ''Fintech'', ''Healthcare'', ''E-commerce'',
     ''AI'', ''Data'']"

definition preferred_sizes :: "string list" where
  "preferred_sizes = [''11-50'', ''51-200'', ''201-500'']"

definition evaluate_industry_match :: "lead \<Rightarrow> scoring_criteria \<Rightarrow> real" where
  "evaluate_industry_match l c =
    (if truthy_str (industry l) \<and> the (industry l) \<in> set preferred_industries
     then max_score c else 0.0)"

definition evaluate_company_size :: "lead \<Rightarrow> scoring_criteria \<Rightarrow> real" where
  "evaluate_company_size l c =
    (if truthy_str (employees l) \<and> the (employees l) \<in> set preferred_sizes
     then max_score c else 0.0)"

definition evaluate_email_quality :: "lead \<Rightarrow> scoring_criteria \<Rightarrow> real" where
  "evaluate_email_quality l c =
    (if email_confidence l \<ge> threshold c then max_score c * (email_confidence l / 1.0)
     else 0.0)"

definition evaluate_scrape_quality :: "lead \<Rightarrow> scoring_criteria \<Rightarrow> real" where
  "evaluate_scrape_quality l c =
    (if scrape_confidence l \<ge> threshold c then max_score c * (scrape_confidence l / 1.0)
     else 0.0)"

definition evaluate_enrichment_quality :: "lead \<Rightarrow> scoring_criteria \<Rightarrow> real" where
  "evaluate_enrichment_quality l c =
    (if enrichment_confidence l \<ge> threshold c
     then max_score c * (enrichment_confidence l / 1.0) else 0.0)"

definition evaluate_linkedin_presence :: "lead \<Rightarrow> scoring_criteria \<Rightarrow> real" where
  "evaluate_linkedin_presence l c =
    (if truthy_str (linkedin_url l) then max_score c else 0.0)"

text \<open>The dispatch on the criterion's name; an unknown name scores 0.\<close>

definition evaluate_criterion :: "lead \<Rightarrow> scoring_criteria \<Rightarrow> real" where
  "evaluate_criterion l c =
    (if name c = ''industry_match'' then evaluate_industry_match l c
     else if name c = ''company_size'' then evaluate_company_size l c
     else if name c = ''email_quality'' then evaluate_email_quality l c
     else if name c = ''scrape_quality'' then evaluate_scrape_quality l c
     else if name c = ''enrichment_quality'' then evaluate_enrichment_quality l c
     else if name c = ''linkedin_presence'' then evaluate_linkedin_presence l c
     else 0.0)"

definition classify_lead :: "real \<Rightarrow> string" where
  "classify_lead score =
    (if score \<ge> 80 then ''Hot Lead''
     else if score \<ge> 60 then ''Warm Lead''
     else if score \<ge> 40 then ''Cold Lead''
     else ''Disqualified'')"

text \<open>
  The loop of \<open>score_lead\<close>: one step per criterion, on the pair of the dictionary of
  scores and the running total.
\<close>

fun score_loop ::
  "lead \<Rightarrow> scoring_criteria list \<Rightarrow> (string \<times> real) list \<times> real
    \<Rightarrow> (string \<times> real) list \<times> real" where
  "score_loop l [] st = st"
| "score_loop l (c # cs) (scores, tot) =
    (let score = evaluate_criterion l c
     in score_loop l cs (AList.update (name c) score scores, tot + score))"

text \<open>\<open>custom_criteria or self.default_criteria\<close>: an absent or empty list is the default.\<close>

definition criteria_of :: "scoring_criteria list option \<Rightarrow> scoring_criteria list" where
  "criteria_of custom_criteria =
    (case custom_criteria of
       None \<Rightarrow> default_criteria
     | Some cs \<Rightarrow> if cs = [] then default_criteria else cs)"

definition score_lead :: "lead \<Rightarrow> scoring_criteria list option \<Rightarrow> score_result" where
  "score_lead l custom_criteria =
    (let criteria = criteria_of custom_criteria;
         (scores, tot) = score_loop l criteria ([], 0.0);
         normalized_score = min tot 100.0;
         label = classify_lead normalized_score
     in \<lparr>total_score = normalized_score, criteria_scores = scores,
         qualification_label = label, raw_score = tot\<rparr>)"

text \<open>
  The contribution of a quality criterion of the default list (threshold 0.6, at most
  15 points), as a function of the confidence.
\<close>

definition quality :: "real \<Rightarrow> real" where
  "quality c = (if c \<ge> 0.6 then 15 * c else 0)"

text \<open>
  A lead used to instantiate the theorems below: a software company of 51-200 people
  with a LinkedIn page and confident extraction.
\<close>

definition sample_lead :: lead where
  "sample_lead =
    \<lparr>lead_id = 1, organization_id = 1, owner_id = 1, company_name = Some ''Acme'',
     website = ''https://acme.io'', industry = Some ''Software'', about_text = None,
     contact_name = None, contact_title = None,
     linkedin_url = Some ''https://linkedin.com/company/acme'',
     employees = Some ''51-200'', revenue_band = None, founded_year = None,
     scrape_confidence = 0.8, email_confidence = 0.5, enrichment_confidence = 0.9,
     enrichment_source = ''heuristic'', created_at = 0\<rparr>"

subsection \<open>Decimal rendering of integers (\<open>str(n)\<close> in an f-string)\<close>

definition digit_char :: "nat \<Rightarrow> char" where
  "digit_char d = ''0123456789'' ! d"

fun str_nat :: "nat \<Rightarrow> string" where
  "str_nat n = (if n < 10 then [digit_char n] else str_nat (n div 10) @ [digit_char (n mod 10)])"

definition str_int :: "int \<Rightarrow> string" where
  "str_int i = (if i < 0 then ''-'' @ str_nat (nat (- i)) else str_nat (nat i))"

subsection \<open>Quota gate (core/infrastructure/billing/subscription_service.py)\<close>

text \<open>
  The plan limits are read from the environment at every call
  (\<open>int(os.getenv("FREE_MAX_LEADS_PER_DAY", "10"))\<close> and so on); \<open>plan_config\<close> holds the
  values so read. A time is a number of microseconds since the epoch, in UTC.
\<close>

record plan_config =
  free_max_leads_per_day :: int
  pro_max_leads_per_day :: int
  enterprise_max_leads_per_day :: int
  can_export_free :: bool
  can_export_pro :: bool
  can_export_enterprise :: bool
  can_use_ai_free :: bool
  can_use_ai_pro :: bool
  can_use_ai_enterprise :: bool

definition default_config :: plan_config where
  "default_config =
    \<lparr>free_max_leads_per_day = 10, pro_max_leads_per_day = 500,
     enterprise_max_leads_per_day = 10000,
     can_export_free = False, can_export_pro = False, can_export_enterprise = False,
     can_use_ai_free = False, can_use_ai_pro = False, can_use_ai_enterprise = False\<rparr>"

record subscription =
  sub_organization_id :: nat
  sub_plan_name :: string

record plan_usage =
  plan_name :: string
  max_leads_per_day :: int
  can_export :: bool
  can_use_ai :: bool
  current_usage :: int
  remaining_daily_leads :: int
  can_process_more_today :: bool

record database =
  leads :: "lead list"
  subscriptions :: "subscription list"
  next_lead_id :: nat

definition day_us :: nat where
  "day_us = 86400000000"

definition start_of_day :: "nat \<Rightarrow> nat" where
  "start_of_day now = (now div day_us) * day_us"

definition end_of_day :: "nat \<Rightarrow> nat" where
  "end_of_day now = start_of_day now + (day_us - 1)"

definition get_daily_usage :: "database \<Rightarrow> nat \<Rightarrow> nat \<Rightarrow> int" where
  "get_daily_usage db now org =
    int (length (filter (\<lambda>l. organization_id l = org \<and> created_at l \<ge> start_of_day now
                              \<and> created_at l \<le> end_of_day now) (leads db)))"

definition get_organization_usage :: "plan_config \<Rightarrow> database \<Rightarrow> nat \<Rightarrow> nat \<Rightarrow> plan_usage" where
  "get_organization_usage cfg db now org =
    (let subscription = find (\<lambda>s. sub_organization_id s = org) (subscriptions db);
         pname = (case subscription of Some s \<Rightarrow> sub_plan_name s | None \<Rightarrow> ''free'');
         (cap, export, ai) =
           (if pname = ''pro''
            then (pro_max_leads_per_day cfg, can_export_pro cfg, can_use_ai_pro cfg)
            else if pname = ''enterprise''
            then (enterprise_max_leads_per_day cfg, can_export_enterprise cfg,
                  can_use_ai_enterprise cfg)
            else (free_max_leads_per_day cfg, can_export_free cfg, can_use_ai_free cfg));
         usage = get_daily_usage db now org;
         remaining = max 0 (cap - usage)
     in \<lparr>plan_name = pname, max_leads_per_day = cap, can_export = export, can_use_ai = ai,
         current_usage = usage, remaining_daily_leads = remaining,
         can_process_more_today = (remaining > 0)\<rparr>)"

definition can_create_lead :: "plan_config \<Rightarrow> database \<Rightarrow> nat \<Rightarrow> nat \<Rightarrow> bool" where
  "can_create_lead cfg db now org = can_process_more_today (get_organization_usage cfg db now org)"

subsection \<open>Bulk lead creation (api/endpoints/leads.py, database/crud.py)\<close>

datatype http_exception = HTTPException nat string

record user =
  user_id :: nat
  user_organization_id :: nat
  is_active :: bool

text \<open>
  The state a request works on: the database and the background tasks of the request,
  each task the id of the lead to process.
\<close>

record request_state =
  db :: database
  background_tasks :: "nat list"

text \<open>\<open>create_lead\<close>: the row the database stores, with the next id and the server's time.\<close>

definition create_lead :: "database \<Rightarrow> nat \<Rightarrow> string \<Rightarrow> nat \<Rightarrow> nat \<Rightarrow> lead \<times> database" where
  "create_lead d now url org owner =
    (let db_lead =
       \<lparr>lead_id = next_lead_id d, organization_id = org, owner_id = owner,
        company_name = None, website = url, industry = None, about_text = None,
        contact_name = None, contact_title = None, linkedin_url = None, employees = None,
        revenue_band = None, founded_year = None, scrape_confidence = 0.0,
        email_confidence = 0.0, enrichment_confidence = 0.0, enrichment_source = ''none'',
        created_at = now\<rparr>
     in (db_lead, d\<lparr>leads := leads d @ [db_lead], next_lead_id := Suc (next_lead_id d)\<rparr>))"

text \<open>The loop over the URLs: create the row, then add its processing task.\<close>

fun create_loop ::
  "nat \<Rightarrow> user \<Rightarrow> string list \<Rightarrow> lead list \<times> request_state \<Rightarrow> lead list \<times> request_state" where
  "create_loop now u [] acc = acc"
| "create_loop now u (url # urls) (created_leads, st) =
    (let (db_lead, d) = create_lead (db st) now url (user_organization_id u) (user_id u)
     in create_loop now u urls
          (created_leads @ [db_lead],
           st\<lparr>db := d, background_tasks := background_tasks st @ [lead_id db_lead]\<rparr>))"

definition create_leads_from_urls ::
  "plan_config \<Rightarrow> nat \<Rightarrow> string list \<Rightarrow> user \<Rightarrow> request_state
    \<Rightarrow> (http_exception + lead list) \<times> request_state" where
  "create_leads_from_urls cfg now urls current_user st =
    (if urls = [] then (Inl (HTTPException 400 ''No URLs provided''), st)
     else if \<not> can_create_lead cfg (db st) now (user_organization_id current_user)
     then (Inl (HTTPException 429 ''Daily lead limit exceeded for your subscription plan''), st)
     else
       let usage = get_organization_usage cfg (db st) now (user_organization_id current_user)
       in if int (length urls) > remaining_daily_leads usage
          then (Inl (HTTPException 429
                  (''Cannot create '' @ str_nat (length urls) @ '' leads. Only ''
                   @ str_int (remaining_daily_leads usage)
                   @ '' leads remaining for today.'')), st)
          else (case create_loop now current_user urls ([], st) of
                  (created_leads, st') \<Rightarrow> (Inr created_leads, st')))"

text \<open>A free-plan organisation (no subscription row) with \<open>n\<close> leads created today.\<close>

definition lead_at :: "nat \<Rightarrow> nat \<Rightarrow> lead" where
  "lead_at i t = fst (create_lead \<lparr>leads = [], subscriptions = [], next_lead_id = i\<rparr> t
                        ''https://example.com'' 1 1)"

definition state_with :: "nat \<Rightarrow> request_state" where
  "state_with n =
    \<lparr>db = \<lparr>leads = map (\<lambda>i. lead_at i 5) [0..<n], subscriptions = [], next_lead_id = n\<rparr>,
     background_tasks = []\<rparr>"

definition sample_user :: user where
  "sample_user = \<lparr>user_id = 1, user_organization_id = 1, is_active = True\<rparr>"

subsection \<open>Tokens (core/infrastructure/auth/security.py, api/endpoints/auth.py)\<close>

text \<open>
  A bearer token is modelled by what \<open>jwt.decode\<close> sees of it: whether its signature
  verifies under the server's key, and its claims \<open>exp\<close> (seconds), \<open>sub\<close> and \<open>type\<close>.
  \<open>jwt.decode\<close> raises a \<open>PyJWTError\<close> for a bad signature and for an expired token.
\<close>

record token =
  signature_valid :: bool
  claim_exp :: nat
  claim_sub :: "string option"
  claim_type :: "string option"

datatype jwt_error = PyJWTError

definition jwt_decode :: "nat \<Rightarrow> token \<Rightarrow> jwt_error + token" where
  "jwt_decode now t =
    (if \<not> signature_valid t then Inl PyJWTError
     else if claim_exp t \<le> now then Inl PyJWTError
     else Inr t)"

definition create_access_token :: "nat \<Rightarrow> string \<Rightarrow> nat \<Rightarrow> token" where
  "create_access_token now subject expires_delta =
    \<lparr>signature_valid = True, claim_exp = now + expires_delta, claim_sub = Some subject,
     claim_type = Some ''access''\<rparr>"

definition create_refresh_token :: "nat \<Rightarrow> string \<Rightarrow> token" where
  "create_refresh_token now subject =
    \<lparr>signature_valid = True, claim_exp = now + 7 * 86400, claim_sub = Some subject,
     claim_type = Some ''refresh''\<rparr>"

text \<open>\<open>verify_token\<close> returns the pair of \<open>user_id\<close> and \<open>token_type\<close>, or raises 401.\<close>

definition verify_token :: "nat \<Rightarrow> token \<Rightarrow> http_exception + string \<times> string" where
  "verify_token now t =
    (case jwt_decode now t of
       Inl PyJWTError \<Rightarrow> Inl (HTTPException 401 ''Invalid token'')
     | Inr payload \<Rightarrow>
         if claim_sub payload = None \<or> claim_type payload \<noteq> Some ''access''
         then Inl (HTTPException 401 ''Invalid token'')
         else Inr (the (claim_sub payload), the (claim_type payload)))"

definition get_user :: "user list \<Rightarrow> string \<Rightarrow> user option" where
  "get_user users uid = find (\<lambda>u. str_nat (user_id u) = uid) users"

text \<open>
  The body of the \<open>try\<close> block of \<open>POST /refresh\<close>, then the endpoint: its
  \<open>except Exception\<close> turns whatever the body raises into 401 "Invalid refresh token".
\<close>

definition refresh_body :: "nat \<Rightarrow> user list \<Rightarrow> token \<Rightarrow> http_exception + token" where
  "refresh_body now users t =
    (case verify_token now t of
       Inl e \<Rightarrow> Inl e
     | Inr (uid, ty) \<Rightarrow>
         if ty \<noteq> ''refresh'' then Inl (HTTPException 401 ''Invalid refresh token'')
         else (case get_user users uid of
                 None \<Rightarrow> Inl (HTTPException 401 ''User not found or inactive'')
               | Some u \<Rightarrow>
                   if \<not> is_active u
                   then Inl (HTTPException 401 ''User not found or inactive'')
                   else Inr (create_access_token now (str_nat (user_id u)) (30 * 60))))"

definition refresh_token :: "nat \<Rightarrow> user list \<Rightarrow> token \<Rightarrow> http_exception + token" where
  "refresh_token now users t =
    (case refresh_body now users t of
       Inl e \<Rightarrow> Inl (HTTPException 401 ''Invalid refresh token'')
     | Inr access_token \<Rightarrow> Inr access_token)"

subsection \<open>Messenger (core/infrastructure/messaging/messenger.py)\<close>

definition lower_char :: "char \<Rightarrow> char" where
  "lower_char c =
    (case map_of (zip ''ABCDEFGHIJKLMNOPQRSTUVWXYZ'' ''abcdefghijklmnopqrstuvwxyz'') c of
       Some d \<Rightarrow> d
     | None \<Rightarrow> c)"

definition lower :: "string \<Rightarrow> string" where
  "lower s = map lower_char s"

text \<open>\<open>x or default\<close> on a nullable string.\<close>

definition or_else :: "string option \<Rightarrow> string \<Rightarrow> string" where
  "or_else x dflt = (if truthy_str x then the x else dflt)"

text \<open>A nullable string inside an f-string: \<open>None\<close> prints as "None".\<close>

definition fmt :: "string option \<Rightarrow> string" where
  "fmt x = (case x of None \<Rightarrow> ''None'' | Some s \<Rightarrow> s)"

definition has_sufficient_data :: "lead \<Rightarrow> bool" where
  "has_sufficient_data l =
    (let data_points =
           (if truthy_str (company_name l) then 1 else 0)
         + (if truthy_str (industry l) then 1 else 0)
         + (if truthy_str (about_text l) \<and> length (the (about_text l)) > 50 then 1 else 0)
         + (if truthy_str (contact_name l) then 1 else 0)
         + (if truthy_str (employees l) then 1 else (0::nat))
     in data_points \<ge> 2)"

definition software_template :: "string \<Rightarrow> string \<Rightarrow> string \<Rightarrow> string" where
  "software_template sender_org contact_ref company_ref =
    ''Hi '' @ contact_ref @ '',\<newline>\<newline>I came across '' @ company_ref
    @ '' in the software space and was impressed by your work. At '' @ sender_org
    @ '', we help software companies optimize their operations and growth. I'd love to explore how we might add value to ''
    @ company_ref @ '''s journey.\<newline>\<newline>Best regards,\<newline>'' @ sender_org"

definition consulting_template :: "string \<Rightarrow> string \<Rightarrow> string \<Rightarrow> string" where
  "consulting_template sender_org contact_ref company_ref =
    ''Hi '' @ contact_ref @ '',\<newline>\<newline>I noticed '' @ company_ref
    @ '' in the consulting field and thought there might be synergies with our work at ''
    @ sender_org
    @ ''. We specialize in helping consulting firms enhance their client value proposition. Would you be open to a brief conversation?\<newline>\<newline>Best regards,\<newline>''
    @ sender_org"

definition ecommerce_template :: "string \<Rightarrow> string \<Rightarrow> string \<Rightarrow> string" where
  "ecommerce_template sender_org contact_ref company_ref =
    ''Hi '' @ contact_ref @ '',\<newline>\<newline>I discovered '' @ company_ref
    @ '' in the e-commerce space and was intrigued by your approach. '' @ sender_org
    @ '' works with e-commerce businesses to streamline their operations and drive growth. I'd be keen to learn more about your current challenges and see if there's alignment with our expertise.\<newline>\<newline>Best regards,\<newline>''
    @ sender_org"

definition default_industry_template ::
  "string \<Rightarrow> string \<Rightarrow> string \<Rightarrow> string option \<Rightarrow> string" where
  "default_industry_template sender_org contact_ref company_ref ind =
    ''Hi '' @ contact_ref @ '',\<newline>\<newline>I came across '' @ company_ref @ '' in the ''
    @ fmt ind
    @ '' space and thought there could be value in a brief conversation. We at ''
    @ sender_org
    @ '' work with companies like yours to explore growth and efficiency opportunities.\<newline>\<newline>Best regards,\<newline>''
    @ sender_org"

definition get_industry_template :: "string \<Rightarrow> lead \<Rightarrow> string" where
  "get_industry_template sender_org l =
    (let contact_ref = or_else (contact_name l) ''the team'';
         company_ref = or_else (company_name l) ''your company'';
         industry_key = filter (\<lambda>c. c \<noteq> CHR '' '') (lower (or_else (industry l) ''''))
     in if industry_key = ''software'' then software_template sender_org contact_ref company_ref
        else if industry_key = ''consulting''
        then consulting_template sender_org contact_ref company_ref
        else if industry_key = ''ecommerce''
        then ecommerce_template sender_org contact_ref company_ref
        else default_industry_template sender_org contact_ref company_ref (industry l))"

definition get_generic_template :: "string \<Rightarrow> lead \<Rightarrow> string" where
  "get_generic_template sender_org l =
    (let contact_ref = or_else (contact_name l) ''the team'';
         company_ref = or_else (company_name l) ''your company''
     in ''Hi '' @ contact_ref @ '',\<newline>\<newline>I discovered '' @ company_ref
        @ '' and was interested in what you're building. At '' @ sender_org
        @ '', we work with innovative companies to help them achieve their growth objectives. I'd love to learn more about your current initiatives and see if there's potential for collaboration.\<newline>\<newline>Best regards,\<newline>''
        @ sender_org)"

definition get_website_only_template :: "string \<Rightarrow> lead \<Rightarrow> string" where
  "get_website_only_template sender_org l =
    (let site = (if website l \<noteq> [] then website l else ''your website'');
         company_ref = or_else (company_name l) ''your company''
     in ''Hi team,\<newline>\<newline>I visited '' @ site @ '' and was impressed by '' @ company_ref
        @ '''s work. At '' @ sender_org
        @ '', we help companies like yours navigate growth challenges and operational efficiencies. I'd be interested in exploring potential synergies.\<newline>\<newline>Best regards,\<newline>''
        @ sender_org)"

definition generate_template_message :: "string \<Rightarrow> lead \<Rightarrow> string" where
  "generate_template_message sender_org l =
    (if truthy_str (company_name l) \<and> truthy_str (industry l)
     then get_industry_template sender_org l
     else if truthy_str (company_name l) then get_generic_template sender_org l
     else get_website_only_template sender_org l)"

text \<open>
  \<open>generate_message\<close>: \<open>llm\<close> is what \<open>_generate_llm_message\<close> returns for this lead
  (\<open>None\<close> without a credential or on any failure); it is asked only when the lead has
  sufficient data.
\<close>

definition generate_message :: "string \<Rightarrow> string option \<Rightarrow> lead \<Rightarrow> string" where
  "generate_message sender_org llm l =
    (if has_sufficient_data l \<and> truthy_str llm then the llm
     else generate_template_message sender_org l)"

text \<open>A lead that has only its website.\<close>

definition website_lead :: lead where
  "website_lead = lead_at 1 0 \<lparr>website := ''https://acme.io''\<rparr>"

subsection \<open>Strings and regular expressions (\<open>str\<close> methods and the \<open>re\<close> module)\<close>

datatype py_exception = ValueError | TypeError

text \<open>\<open>sub in text\<close> on strings, and \<open>text.startswith(sub)\<close>.\<close>

fun startswith :: "string \<Rightarrow> string \<Rightarrow> bool" where
  "startswith text [] = True"
| "startswith [] (p # ps) = False"
| "startswith (c # cs) (p # ps) = (c = p \<and> startswith cs ps)"

fun py_in :: "string \<Rightarrow> string \<Rightarrow> bool" where
  "py_in sub [] = (sub = [])"
| "py_in sub (c # cs) = (startswith (c # cs) sub \<or> py_in sub cs)"

definition is_digit :: "char \<Rightarrow> bool" where
  "is_digit c = (c \<in> set ''0123456789'')"

definition is_upper :: "char \<Rightarrow> bool" where
  "is_upper c = (c \<in> set ''ABCDEFGHIJKLMNOPQRSTUVWXYZ'')"

definition is_lower :: "char \<Rightarrow> bool" where
  "is_lower c = (c \<in> set ''abcdefghijklmnopqrstuvwxyz'')"

text \<open>\<open>\s\<close>: tab, line feed, vertical tab, form feed, carriage return, the four
  separators 0x1C to 0x1F, and the space.\<close>

definition is_space :: "char \<Rightarrow> bool" where
  "is_space c =
    (c \<in> set [CHR 0x09, CHR 0x0A, CHR 0x0B, CHR 0x0C, CHR 0x0D, CHR 0x1C, CHR 0x1D, CHR 0x1E,
               CHR 0x1F, CHR 0x20])"

definition is_word :: "char \<Rightarrow> bool" where
  "is_word c = (is_lower c \<or> is_upper c \<or> is_digit c \<or> c = CHR ''_'')"

definition upper_char :: "char \<Rightarrow> char" where
  "upper_char c =
    (case map_of (zip ''abcdefghijklmnopqrstuvwxyz'' ''ABCDEFGHIJKLMNOPQRSTUVWXYZ'') c of
       Some d \<Rightarrow> d
     | None \<Rightarrow> c)"

text \<open>\<open>str.title()\<close>: a cased character is upper case at the start of a run of cased
  characters and lower case inside it.\<close>

fun title_from :: "bool \<Rightarrow> string \<Rightarrow> string" where
  "title_from previous_is_cased [] = []"
| "title_from previous_is_cased (c # cs) =
    (if previous_is_cased then lower_char c else upper_char c)
    # title_from (is_lower c \<or> is_upper c) cs"

definition title :: "string \<Rightarrow> string" where
  "title s = title_from False s"

text \<open>
  \<open>int(s)\<close> on what the patterns below capture: a non-empty string of digits is its
  decimal value; any other string is reported as \<open>ValueError\<close>.
\<close>

definition digit_value :: "char \<Rightarrow> nat" where
  "digit_value c = (case map_of (zip ''0123456789'' [0, 1, 2, 3, 4, 5, 6, 7, 8, 9]) c of
                      Some d \<Rightarrow> d | None \<Rightarrow> 0)"

definition py_int :: "string \<Rightarrow> py_exception + int" where
  "py_int s =
    (if s \<noteq> [] \<and> list_all is_digit s
     then Inr (int (foldl (\<lambda>acc c. 10 * acc + digit_value c) 0 s))
     else Inl ValueError)"

text \<open>
  The fragment of the pattern language the code uses. \<open>Plus\<close> is \<open>+\<close> on a character
  class, \<open>Opt\<close> is \<open>?\<close>, \<open>Grp\<close> is a capturing group (each pattern has one),
  alternation and the non-capturing group are \<open>Alt\<close>.
\<close>

datatype cclass =
    Digit | Space | Word | Upper | Lower | Chars string | Union cclass cclass

datatype rx =
    Lit string | Cls cclass | Plus cclass | Opt rx | Seq rx rx | Alt rx rx | Grp rx

fun in_class :: "cclass \<Rightarrow> char \<Rightarrow> bool" where
  "in_class Digit c = is_digit c"
| "in_class Space c = is_space c"
| "in_class Word c = is_word c"
| "in_class Upper c = is_upper c"
| "in_class Lower c = is_lower c"
| "in_class (Chars cs) c = (c \<in> set cs)"
| "in_class (Union a b) c = (in_class a c \<or> in_class b c)"

text \<open>A literal, read from the front of the text; with \<open>re.IGNORECASE\<close> up to case.\<close>

definition char_eq :: "bool \<Rightarrow> char \<Rightarrow> char \<Rightarrow> bool" where
  "char_eq ic c p = (if ic then lower_char c = lower_char p else c = p)"

fun lit_rest :: "bool \<Rightarrow> string \<Rightarrow> string \<Rightarrow> string option" where
  "lit_rest ic [] s = Some s"
| "lit_rest ic (p # ps) [] = None"
| "lit_rest ic (p # ps) (c # cs) = (if char_eq ic c p then lit_rest ic ps cs else None)"

text \<open>The texts left after one or more characters of a class, the longest run first.\<close>

fun plus_rests :: "cclass \<Rightarrow> string \<Rightarrow> string list" where
  "plus_rests k [] = []"
| "plus_rests k (c # cs) = (if in_class k c then plus_rests k cs @ [cs] else [])"

text \<open>
  The backtracking matcher. A state is the text still to read and the group captured so
  far; \<open>rmatch\<close> lists, in the order the \<open>re\<close> engine tries them, the states in which
  the pattern can end when it starts at the front of the text.
\<close>

fun rmatch :: "bool \<Rightarrow> rx \<Rightarrow> string \<times> string option \<Rightarrow> (string \<times> string option) list" where
  "rmatch ic (Lit p) (s, cap) = (case lit_rest ic p s of None \<Rightarrow> [] | Some r \<Rightarrow> [(r, cap)])"
| "rmatch ic (Cls k) (s, cap) =
    (case s of [] \<Rightarrow> [] | c # cs \<Rightarrow> if in_class k c then [(cs, cap)] else [])"
| "rmatch ic (Plus k) (s, cap) = map (\<lambda>r. (r, cap)) (plus_rests k s)"
| "rmatch ic (Opt r) (s, cap) = rmatch ic r (s, cap) @ [(s, cap)]"
| "rmatch ic (Seq a b) (s, cap) = concat (map (rmatch ic b) (rmatch ic a (s, cap)))"
| "rmatch ic (Alt a b) (s, cap) = rmatch ic a (s, cap) @ rmatch ic b (s, cap)"
| "rmatch ic (Grp r) (s, cap) =
    map (\<lambda>(rest, _). (rest, Some (take (length s - length rest) s))) (rmatch ic r (s, cap))"

text \<open>
  \<open>re.findall(pattern, text)\<close>, as the code uses it: \<open>None\<close> for an empty list, otherwise
  \<open>matches[0]\<close>, the group of the leftmost match.
\<close>

fun findall_first :: "bool \<Rightarrow> rx \<Rightarrow> string \<Rightarrow> string option" where
  "findall_first ic r [] =
    (case rmatch ic r ([], None) of
       [] \<Rightarrow> None
     | (rest, cap) # _ \<Rightarrow> Some (case cap of None \<Rightarrow> [] | Some g \<Rightarrow> g))"
| "findall_first ic r (c # cs) =
    (case rmatch ic r (c # cs, None) of
       [] \<Rightarrow> findall_first ic r cs
     | (rest, cap) # _ \<Rightarrow> Some (case cap of None \<Rightarrow> [] | Some g \<Rightarrow> g))"

text \<open>The first pattern of a list that matches, as in \<open>for pattern in patterns\<close>.\<close>

fun first_pattern :: "bool \<Rightarrow> rx list \<Rightarrow> string \<Rightarrow> string option" where
  "first_pattern ic [] text = None"
| "first_pattern ic (p # ps) text =
    (case findall_first ic p text of None \<Rightarrow> first_pattern ic ps text | Some g \<Rightarrow> Some g)"

text \<open>Pattern shorthands: a sequence, an alternation of literals, \<open>\s+\<close> and \<open>\d{2}\<close>.\<close>

fun seqs :: "rx list \<Rightarrow> rx" where
  "seqs [] = Lit []"
| "seqs [r] = r"
| "seqs (r # rs) = Seq r (seqs rs)"

fun alts :: "string list \<Rightarrow> rx" where
  "alts [] = Cls (Chars [])"
| "alts [w] = Lit w"
| "alts (w # ws) = Alt (Lit w) (alts ws)"

definition ws1 :: rx where
  "ws1 = Plus Space"

definition d2 :: rx where
  "d2 = Seq (Cls Digit) (Cls Digit)"

subsection \<open>Python values and dictionaries\<close>

text \<open>
  The values a scraped or enriched dictionary holds. \<open>str(v)\<close> of such a value is the
  interpreter's rendering; the functions that call it take it as the argument \<open>py_str\<close>.
\<close>

datatype pyval =
    PNone | PBool bool | PInt int | PStr string | PList "pyval list"
  | PDict "(string \<times> pyval) list"

type_synonym dict = "(string \<times> pyval) list"

fun truthy :: "pyval \<Rightarrow> bool" where
  "truthy PNone = False"
| "truthy (PBool b) = b"
| "truthy (PInt i) = (i \<noteq> 0)"
| "truthy (PStr s) = (s \<noteq> [])"
| "truthy (PList xs) = (xs \<noteq> [])"
| "truthy (PDict d) = (d \<noteq> [])"

text \<open>
  \<open>len(v)\<close> of a string, a list or a dictionary (the tiers store a list under
  \<open>links\<close>; a value without a length counts as empty here).
\<close>

fun py_len :: "pyval \<Rightarrow> nat" where
  "py_len (PStr s) = length s"
| "py_len (PList xs) = length xs"
| "py_len (PDict d) = length d"
| "py_len v = 0"

text \<open>\<open>k in d\<close> and the truthiness of \<open>d.get(k)\<close>.\<close>

definition has_key :: "string \<Rightarrow> dict \<Rightarrow> bool" where
  "has_key k d = (map_of d k \<noteq> None)"

definition get_truthy :: "dict \<Rightarrow> string \<Rightarrow> bool" where
  "get_truthy d k = (case map_of d k of None \<Rightarrow> False | Some v \<Rightarrow> truthy v)"

text \<open>\<open>sep.join(texts)\<close>: a \<open>TypeError\<close> when an item is not a string.\<close>

fun join :: "string \<Rightarrow> string list \<Rightarrow> string" where
  "join sep [] = []"
| "join sep [x] = x"
| "join sep (x # xs) = x @ sep @ join sep xs"

fun the_strs :: "pyval list \<Rightarrow> string list option" where
  "the_strs [] = Some []"
| "the_strs (PStr s # vs) = (case the_strs vs of None \<Rightarrow> None | Some ss \<Rightarrow> Some (s # ss))"
| "the_strs (v # vs) = None"

definition py_join :: "string \<Rightarrow> pyval list \<Rightarrow> py_exception + string" where
  "py_join sep texts = (case the_strs texts of None \<Rightarrow> Inl TypeError | Some ss \<Rightarrow> Inr (join sep ss))"

subsection \<open>Waterfall enricher (core/infrastructure/enrichment/enricher.py)\<close>

datatype enrichment_method = HEURISTIC | EXTERNAL_API | LLM

record enrichment_result =
  enr_success :: bool
  enr_data :: dict
  enr_method :: enrichment_method
  enr_confidence :: real
  enr_processing_time :: int

definition industry_keywords :: "(string \<times> string list) list" where
  "industry_keywords =
    [(''Software'', [''software'', ''saas'', ''platform'', ''cloud'', ''api'', ''app'',
                     ''application'', ''tech'', ''technology'']),
     (''Consulting'', [''consulting'', ''advisory'', ''services'', ''strategy'', ''business'',
                       ''management'']),
     (''E-commerce'', [''ecommerce'', ''retail'', ''shop'', ''store'', ''marketplace'', ''buy'',
                       ''sell'']),
     (''Finance'', [''finance'', ''banking'', ''investment'', ''fintech'', ''payment'',
                    ''financial'', ''money'']),
     (''Healthcare'', [''health'', ''medical'', ''clinic'', ''hospital'', ''care'', ''pharma'',
                       ''healthcare'']),
     (''Marketing'', [''marketing'', ''advertising'', ''media'', ''social'', ''campaign'',
                      ''brand'']),
     (''Education'', [''education'', ''learning'', ''school'', ''university'', ''course'',
                      ''training'', ''edu'']),
     (''Real Estate'', [''real estate'', ''property'', ''realestate'', ''estate'', ''housing'',
                        ''rent'', ''buy'']),
     (''Travel'', [''travel'', ''tourism'', ''hotel'', ''booking'', ''vacation'', ''flight'',
                   ''airline'']),
     (''Food & Beverage'', [''restaurant'', ''food'', ''beverage'', ''cafe'', ''catering'',
                            ''delivery''])]"

definition employee_keywords :: "(string \<times> string list) list" where
  "employee_keywords =
    [(''1-10'', [''startup'', ''early stage'', ''small team'', ''small business'']),
     (''11-50'', [''growing'', ''medium sized'', ''expanding'', ''scale up'']),
     (''51-200'', [''established'', ''mid sized'', ''corporate'', ''professional'']),
     (''201-500'', [''large'', ''enterprise'', ''major'', ''substantial'']),
     (''500+'', [''huge'', ''massive'', ''very large'', ''major corporation''])]"

definition get_text_for_analysis ::
  "(pyval \<Rightarrow> string) \<Rightarrow> lead \<Rightarrow> dict \<Rightarrow> py_exception + string" where
  "get_text_for_analysis py_str l scraped_data =
    (let texts0 = (if truthy_str (company_name l)
                   then [PStr (''Company: '' @ the (company_name l))] else []);
         texts1 = (if truthy_str (about_text l) then texts0 @ [PStr (the (about_text l))]
                   else texts0);
         texts2 =
           (if has_key ''text_content'' scraped_data
            then texts1 @ [the (map_of scraped_data ''text_content'')]
            else if has_key ''description'' scraped_data
            then texts1 @ [the (map_of scraped_data ''description'')]
            else if has_key ''og_description'' scraped_data
            then texts1 @ [the (map_of scraped_data ''og_description'')]
            else if has_key ''title'' scraped_data
            then texts1 @ [the (map_of scraped_data ''title'')]
            else texts1);
         texts3 = (if has_key ''jsonld'' scraped_data
                   then texts2 @ [PStr (py_str (the (map_of scraped_data ''jsonld'')))]
                   else texts2)
     in py_join '' '' texts3)"

text \<open>
  \<open>_infer_industry\<close>: the dictionary of positive keyword counts, in the order of the
  keyword table, and \<open>max\<close> over it, which keeps the first of equal counts.
\<close>

definition industry_scores :: "string \<Rightarrow> (string \<times> nat) list" where
  "industry_scores text =
    filter (\<lambda>(industry, score). score > 0)
      (map (\<lambda>(industry, keywords). (industry, length (filter (\<lambda>keyword. py_in keyword text) keywords)))
         industry_keywords)"

fun max_key :: "string \<times> nat \<Rightarrow> (string \<times> nat) list \<Rightarrow> string" where
  "max_key (k, n) [] = k"
| "max_key (k, n) ((k', n') # rest) = (if n' > n then max_key (k', n') rest else max_key (k, n) rest)"

definition infer_industry :: "string \<Rightarrow> string option" where
  "infer_industry text =
    (case industry_scores text of [] \<Rightarrow> None | first # rest \<Rightarrow> Some (max_key first rest))"

definition employee_patterns :: "rx list" where
  "employee_patterns =
    [seqs [Grp (Plus Digit), ws1, Lit ''employee'', Opt (Lit ''s'')],
     seqs [Lit ''team'', ws1, Lit ''of'', ws1, Grp (Plus Digit)],
     seqs [Grp (Plus Digit), ws1, Lit ''person'', ws1, Lit ''team''],
     seqs [Grp (Plus Digit), ws1, Lit ''staff'']]"

definition size_band :: "int \<Rightarrow> string" where
  "size_band count =
    (if count \<le> 10 then ''1-10''
     else if count \<le> 50 then ''11-50''
     else if count \<le> 200 then ''51-200''
     else if count \<le> 500 then ''201-500''
     else ''500+'')"

definition estimate_employees :: "string \<Rightarrow> py_exception + string option" where
  "estimate_employees text =
    (case find (\<lambda>(size_range, keywords). \<exists>keyword \<in> set keywords. py_in keyword text)
            employee_keywords of
       Some (size_range, keywords) \<Rightarrow> Inr (Some size_range)
     | None \<Rightarrow>
         (case first_pattern False employee_patterns text of
            None \<Rightarrow> Inr None
          | Some m \<Rightarrow>
              (case py_int m of Inl e \<Rightarrow> Inl e | Inr count \<Rightarrow> Inr (Some (size_band count)))))"

definition estimate_revenue_from_employees :: "string \<Rightarrow> string option" where
  "estimate_revenue_from_employees emp =
    map_of [(''1-10'', ''$0-1M''), (''11-50'', ''$1M-10M''), (''51-200'', ''$10M-50M''),
            (''201-500'', ''$50M-100M''), (''500+'', ''$100M+'')] emp"

definition person_name :: rx where
  "person_name = seqs [Cls Upper, Plus Lower, Cls Space, Cls Upper, Plus Lower]"

definition contact_patterns :: "rx list" where
  "contact_patterns =
    [seqs [alts [''CEO'', ''Founder'', ''President'', ''CTO'', ''CFO'', ''COO'', ''Director'',
                 ''Manager'', ''Lead''], ws1, Grp person_name],
     seqs [alts [''Founder'', ''Owner'', ''Director'', ''Manager'', ''Lead''], ws1,
           Grp person_name],
     seqs [alts [''CEO'', ''CTO'', ''CFO'', ''COO''], ws1, Grp person_name],
     seqs [Grp person_name, ws1,
           alts [''CEO'', ''Founder'', ''President'', ''CTO'', ''CFO'', ''COO'', ''Director'',
                 ''Manager'', ''Lead'']]]"

definition extract_contact_person :: "string \<Rightarrow> string option" where
  "extract_contact_person text = first_pattern False contact_patterns text"

definition title_patterns :: "rx list" where
  "title_patterns =
    [Grp (alts [''CEO'', ''Founder'', ''President'', ''CTO'', ''CFO'', ''COO'', ''Director'',
                ''Manager'', ''Lead'', ''VP'', ''President'', ''Owner'']),
     Grp (seqs [Lit ''Chief'', ws1, Plus Word, ws1, Lit ''Officer''])]"

definition extract_contact_title :: "string \<Rightarrow> string option" where
  "extract_contact_title text =
    (case first_pattern True title_patterns text of None \<Rightarrow> None | Some m \<Rightarrow> Some (title m))"

definition founding_words :: rx where
  "founding_words = alts [''founded'', ''established'', ''started'', ''launched'', ''incorporated'']"

definition year4 :: rx where
  "year4 = Alt (Seq (Lit ''19'') d2) (Seq (Lit ''20'') d2)"

definition year4_or_2 :: rx where
  "year4_or_2 = Alt (Seq (Lit ''19'') d2) (Alt (Seq (Lit ''20'') d2) (Seq (Lit [CHR 0x27]) d2))"

definition year_patterns :: "rx list" where
  "year_patterns =
    [seqs [founding_words, ws1, Lit ''i'', Opt (Lit ''n''), ws1, Grp year4_or_2],
     seqs [founding_words, ws1, Grp year4_or_2],
     seqs [Grp year4, ws1, founding_words],
     seqs [alts [''since'', ''from''], ws1, Grp year4]]"

text \<open>The rewriting of an abbreviated year, before \<open>int(year_str)\<close>.\<close>

definition expand_year :: "string \<Rightarrow> py_exception + string" where
  "expand_year year_str =
    (if startswith year_str [CHR 0x27] then Inr (''20'' @ drop 1 year_str)
     else if length year_str = 2
     then (case py_int year_str of
             Inl e \<Rightarrow> Inl e
           | Inr n \<Rightarrow> Inr (if n < 50 then ''20'' @ year_str else ''19'' @ year_str))
     else Inr year_str)"

fun year_loop :: "rx list \<Rightarrow> string \<Rightarrow> py_exception + int option" where
  "year_loop [] text = Inr None"
| "year_loop (pattern # patterns) text =
    (case findall_first True pattern text of
       None \<Rightarrow> year_loop patterns text
     | Some m \<Rightarrow>
         (case expand_year m of
            Inl e \<Rightarrow> Inl e
          | Inr year_str \<Rightarrow>
              (case py_int year_str of
                 Inl e \<Rightarrow> year_loop patterns text
               | Inr year \<Rightarrow>
                   if 1900 \<le> year \<and> year \<le> 2030 then Inr (Some year)
                   else year_loop patterns text)))"

definition extract_founded_year :: "string \<Rightarrow> py_exception + int option" where
  "extract_founded_year text = year_loop year_patterns text"

text \<open>
  One step of \<open>_heuristic_enrichment\<close>: a value that is present and true is stored under
  its key and adds its weight to the confidence.
\<close>

definition add_field :: "string \<Rightarrow> pyval option \<Rightarrow> real \<Rightarrow> dict \<times> real \<Rightarrow> dict \<times> real" where
  "add_field k v w st =
    (case v of
       None \<Rightarrow> st
     | Some x \<Rightarrow> if truthy x then (AList.update k x (fst st), snd st + w) else st)"

text \<open>
  \<open>_heuristic_enrichment\<close>. Whatever is raised inside its \<open>try\<close> block makes it return
  \<open>None\<close>.
\<close>

definition heuristic_enrichment ::
  "(pyval \<Rightarrow> string) \<Rightarrow> lead \<Rightarrow> dict \<Rightarrow> enrichment_result option" where
  "heuristic_enrichment py_str l scraped_data =
    (case get_text_for_analysis py_str l scraped_data of
       Inl e \<Rightarrow> None
     | Inr text_to_analyze \<Rightarrow>
        (case estimate_employees (lower text_to_analyze) of
           Inl e \<Rightarrow> None
         | Inr emp \<Rightarrow>
            (case extract_founded_year text_to_analyze of
               Inl e \<Rightarrow> None
             | Inr founded \<Rightarrow>
                let text_lower = lower text_to_analyze;
                    st1 = add_field ''industry'' (map_option PStr (infer_industry text_lower))
                            0.3 ([], 0.0);
                    st2 = add_field ''employees'' (map_option PStr emp) 0.2 st1;
                    st3 = (if truthy_str emp
                           then add_field ''revenue_band''
                                  (map_option PStr (estimate_revenue_from_employees (the emp)))
                                  0.1 st2
                           else st2);
                    st4 = add_field ''contact_name''
                            (map_option PStr (extract_contact_person text_to_analyze)) 0.15 st3;
                    st5 = add_field ''contact_title''
                            (map_option PStr (extract_contact_title text_to_analyze)) 0.1 st4;
                    st6 = add_field ''founded_year'' (map_option PInt founded) 0.15 st5
                in if fst st6 = [] then None
                   else Some \<lparr>enr_success = True, enr_data = fst st6, enr_method = HEURISTIC,
                              enr_confidence = min (snd st6) 0.9, enr_processing_time = 0\<rparr>)))"

text \<open>\<open>_external_api_enrichment\<close> is a placeholder that returns \<open>None\<close>.\<close>

definition external_api_enrichment :: "lead \<Rightarrow> dict \<Rightarrow> enrichment_result option" where
  "external_api_enrichment l scraped_data = None"

text \<open>
  \<open>_llm_enrichment\<close>. Its surroundings are the credential \<open>GROQ_API_KEY\<close> and what the
  call of the model leads to: a failed import, an exception, an answer without a JSON
  object, one that does not parse, or the parsed object (\<open>null\<close> is \<open>PNone\<close>).
\<close>

datatype llm_outcome =
    LlmImportError | LlmRaised | LlmNoJson | LlmJSONDecodeError | LlmParsed dict

record llm_env =
  api_key :: "string option"
  outcome :: llm_outcome

definition llm_enrichment ::
  "(pyval \<Rightarrow> string) \<Rightarrow> llm_env \<Rightarrow> lead \<Rightarrow> dict \<Rightarrow> enrichment_result option" where
  "llm_enrichment py_str env l scraped_data =
    (if outcome env = LlmImportError then None
     else if \<not> truthy_str (api_key env) \<or> api_key env = Some ''local_test_mode'' then None
     else
       (case get_text_for_analysis py_str l scraped_data of
          Inl e \<Rightarrow> None
        | Inr text_to_analyze \<Rightarrow>
            (case outcome env of
               LlmParsed parsed_data \<Rightarrow>
                 (let enriched_data = filter (\<lambda>(k, v). v \<noteq> PNone) parsed_data
                  in if enriched_data = [] then None
                     else Some \<lparr>enr_success = True, enr_data = enriched_data, enr_method = LLM,
                                enr_confidence =
                                  min (0.5 + real (length enriched_data) * 0.1) 0.8,
                                enr_processing_time = 0\<rparr>)
             | _ \<Rightarrow> None)))"

text \<open>
  \<open>enrich_lead_data\<close> returns its result together with the strategies it ran, in order;
  \<open>elapsed\<close> is the time in milliseconds it stamps on the result. The method
  \<open>_external_api_enrichment\<close> it calls is the argument \<open>api\<close> of \<open>enrich_with\<close>, so
  that its gate is stated for any implementation; the code's is the placeholder.
\<close>

definition enrich_with ::
  "(lead \<Rightarrow> dict \<Rightarrow> enrichment_result option) \<Rightarrow> (pyval \<Rightarrow> string) \<Rightarrow> llm_env \<Rightarrow> int
    \<Rightarrow> lead \<Rightarrow> dict \<Rightarrow> enrichment_result option \<times> enrichment_method list" where
  "enrich_with api py_str env elapsed l scraped_data =
    (let heuristic_result = heuristic_enrichment py_str l scraped_data
     in if heuristic_result \<noteq> None \<and> enr_confidence (the heuristic_result) > 0.7
        then (Some ((the heuristic_result)\<lparr>enr_processing_time := elapsed\<rparr>), [HEURISTIC])
        else
          let api_result = api l scraped_data
          in if api_result \<noteq> None \<and> enr_confidence (the api_result) > 0.6
             then (Some ((the api_result)\<lparr>enr_processing_time := elapsed\<rparr>),
                   [HEURISTIC, EXTERNAL_API])
             else
               let llm_result = llm_enrichment py_str env l scraped_data
               in if llm_result \<noteq> None
                  then (Some ((the llm_result)\<lparr>enr_processing_time := elapsed\<rparr>),
                        [HEURISTIC, EXTERNAL_API, LLM])
                  else (None, [HEURISTIC, EXTERNAL_API, LLM]))"

definition enrich_lead_data ::
  "(pyval \<Rightarrow> string) \<Rightarrow> llm_env \<Rightarrow> int \<Rightarrow> lead \<Rightarrow> dict
    \<Rightarrow> enrichment_result option \<times> enrichment_method list" where
  "enrich_lead_data = enrich_with external_api_enrichment"

text \<open>
  The enrichment stage of the orchestrator (workers/orchestrator.py): without a result
  the lead is left as it is; \<open>merge\<close> stands for the log entry and the update of the
  lead that a result leads to.
\<close>

definition enrichment_stage ::
  "(lead \<Rightarrow> enrichment_result \<Rightarrow> lead) \<Rightarrow> lead \<Rightarrow> enrichment_result option \<Rightarrow> lead" where
  "enrichment_stage merge l enrichment_result =
    (case enrichment_result of None \<Rightarrow> l | Some r \<Rightarrow> merge l r)"

subsection \<open>Tiered scraper (core/infrastructure/scraping/scraper.py)\<close>

text \<open>The field \<open>method\<close> of \<open>ScrapingResult\<close> is \<open>result_method\<close> here.\<close>

datatype scraping_method = JSON_LD | STRUCTURED_DATA | PLAYWRIGHT | REQUESTS | BEAUTIFULSOUP

record scraping_result =
  success :: bool
  data :: dict
  result_method :: scraping_method
  confidence :: real
  processing_time :: real
  error_message :: "string option"

text \<open>The result every failing path builds: no data, the tier's method, a message.\<close>

definition failed :: "scraping_method \<Rightarrow> real \<Rightarrow> string \<Rightarrow> scraping_result" where
  "failed m c msg =
    \<lparr>success = False, data = [], result_method = m, confidence = c, processing_time = 0.0,
     error_message = Some msg\<rparr>"

definition succeeded :: "scraping_method \<Rightarrow> dict \<Rightarrow> real \<Rightarrow> real \<Rightarrow> scraping_result" where
  "succeeded m d c t =
    \<lparr>success = True, data = d, result_method = m, confidence = c, processing_time = t,
     error_message = None\<rparr>"

text \<open>
  What a tier gets from the network: no session, an exception (with its message), or a
  response with its status and the page as the parser hands it over.
\<close>

datatype 'page fetched = NoSession | Raised string | Response nat 'page

definition add_if :: "bool \<Rightarrow> real \<Rightarrow> real" where
  "add_if b w = (if b then w else 0)"

definition business_properties :: "string list" where
  "business_properties =
    [''employeeCount'', ''revenue'', ''founded'', ''industry'', ''contactPoint'', ''location'',
     ''logo'']"

definition calculate_json_ld_confidence :: "(pyval \<Rightarrow> string) \<Rightarrow> dict \<Rightarrow> real" where
  "calculate_json_ld_confidence py_str d =
    (let score = 0.0
               + add_if (has_key ''name'' d \<or> has_key ''legalName'' d) 0.3
               + add_if (has_key ''description'' d) 0.2
               + add_if (has_key ''url'' d) 0.1
               + add_if (has_key ''email'' d \<or> has_key ''telephone'' d) 0.1
               + add_if (has_key ''address'' d) 0.2
               + add_if (has_key ''foundingDate'' d) 0.1;
         score' = foldl (\<lambda>acc prop. acc + add_if (py_in prop (lower (py_str (PDict d)))) 0.1)
                    score business_properties
     in min score' 1.0)"

definition calculate_meta_confidence :: "dict \<Rightarrow> real" where
  "calculate_meta_confidence d =
    (let score = 0.0
               + add_if (get_truthy d ''title'') 0.3
               + add_if (get_truthy d ''description'') 0.3
               + add_if (get_truthy d ''og_title'' \<or> get_truthy d ''og_description'') 0.2
               + add_if (case map_of d ''links'' of None \<Rightarrow> False
                         | Some ls \<Rightarrow> py_len ls > 0) 0.1
               + add_if (get_truthy d ''og_image'') 0.1
     in min score 1.0)"

definition calculate_playwright_confidence :: "dict \<Rightarrow> real" where
  "calculate_playwright_confidence d =
    (let score = 0.3
               + add_if (get_truthy d ''title'') 0.2
               + add_if (get_truthy d ''meta_description'' \<or> get_truthy d ''og_description'') 0.2
               + add_if (get_truthy d ''email'') 0.2
               + add_if (get_truthy d ''phone'') 0.1
               + add_if (get_truthy d ''links'' \<and> py_len (the (map_of d ''links'')) > 5) 0.1
               + add_if (get_truthy d ''potential_company_name'') 0.1
     in min score 1.0)"

text \<open>
  Tier 1. The page is the list of its JSON-LD scripts: \<open>None\<close> for one that does not
  decode, otherwise the flattened items it adds to \<open>all_data\<close>.
\<close>

definition merge_scripts :: "dict option list \<Rightarrow> dict" where
  "merge_scripts scripts =
    foldl (\<lambda>all_data script.
             case script of
               None \<Rightarrow> all_data
             | Some items \<Rightarrow> foldl (\<lambda>acc (k, v). AList.update k v acc) all_data items)
      [] scripts"

definition extract_json_ld ::
  "(pyval \<Rightarrow> string) \<Rightarrow> dict option list fetched \<Rightarrow> scraping_result" where
  "extract_json_ld py_str got =
    (case got of
       NoSession \<Rightarrow> failed JSON_LD 0.0 ''Session is not initialized''
     | Raised e \<Rightarrow> failed JSON_LD 0.0 e
     | Response status json_ld_scripts \<Rightarrow>
         if status \<noteq> 200 then failed JSON_LD 0.0 (''HTTP '' @ str_nat status)
         else if json_ld_scripts = [] then failed JSON_LD 0.0 ''No JSON-LD found''
         else
           let all_data = merge_scripts json_ld_scripts
           in if all_data = [] then failed JSON_LD 0.0 ''Invalid JSON-LD''
              else succeeded JSON_LD all_data (calculate_json_ld_confidence py_str all_data) 0.0)"

text \<open>\<open>s.replace(old, new)\<close> for a non-empty \<open>old\<close>.\<close>

function replace :: "string \<Rightarrow> string \<Rightarrow> string \<Rightarrow> string" where
  "replace old new [] = []"
| "replace old new (c # cs) =
    (if old \<noteq> [] \<and> startswith (c # cs) old
     then new @ replace old new (drop (length old) (c # cs))
     else c # replace old new cs)"
  by pat_completeness auto
termination
  by (relation "measure (\<lambda>(old, new, s). length s)") auto

text \<open>
  Tier 2. The page: the stripped title and description, the \<open>og:\<close> and \<open>twitter:\<close> meta
  tags as pairs of the attribute and the stripped content, and the links collected from
  the anchors.
\<close>

record meta_page =
  mp_title :: "string option"
  mp_description :: "string option"
  mp_og :: "(string \<times> string) list"
  mp_twitter :: "(string \<times> string) list"
  mp_links :: "string list"

definition add_tags :: "string \<Rightarrow> string \<Rightarrow> (string \<times> string) list \<Rightarrow> dict \<Rightarrow> dict" where
  "add_tags marker prefix tags d =
    foldl (\<lambda>acc (attr, content).
             let prop = replace marker [] attr
             in if prop \<noteq> [] then AList.update (prefix @ prop) (PStr content) acc else acc)
      d tags"

definition meta_data :: "meta_page \<Rightarrow> dict" where
  "meta_data page =
    (let d0 = [];
         d1 = (case mp_title page of None \<Rightarrow> d0
               | Some t \<Rightarrow> AList.update ''title'' (PStr t) d0);
         d2 = (case mp_description page of None \<Rightarrow> d1
               | Some t \<Rightarrow> AList.update ''description'' (PStr t) d1);
         d3 = add_tags ''og:'' ''og_'' (mp_og page) d2;
         d4 = add_tags ''twitter:'' ''twitter_'' (mp_twitter page) d3
     in AList.update ''links'' (PList (map PStr (mp_links page))) d4)"

definition extract_meta_data :: "meta_page fetched \<Rightarrow> scraping_result" where
  "extract_meta_data got =
    (case got of
       NoSession \<Rightarrow> failed STRUCTURED_DATA 0.0 ''Session is not initialized''
     | Raised e \<Rightarrow> failed STRUCTURED_DATA 0.0 e
     | Response status page \<Rightarrow>
         if status \<noteq> 200 then failed STRUCTURED_DATA 0.0 (''HTTP '' @ str_nat status)
         else
           let d = meta_data page;
               c = calculate_meta_confidence d
           in if d = [] then failed STRUCTURED_DATA 0.0 ''No meta data found''
              else succeeded STRUCTURED_DATA d c 0.0)"

text \<open>
  The plain-request fallback. The page: what the parser finds for the title, the two
  descriptions and the JSON-LD scripts, the text of the body, the \<open>href\<close> of every
  anchor, and the host of the URL.
\<close>

record requests_page =
  rq_title :: "string option"
  rq_meta_description :: "string option"
  rq_og_description :: "string option"
  rq_jsonld :: "pyval list"
  rq_body_text :: string
  rq_hrefs :: "string list"
  rq_netloc :: string

datatype requests_outcome = RqRaised string | RqResponse nat requests_page

definition alnum :: cclass where
  "alnum = Union Lower (Union Upper Digit)"

definition email_pattern :: rx where
  "email_pattern =
    Grp (seqs [Plus (Union alnum (Chars ''._%+-'')), Lit ''@'',
               Plus (Union alnum (Chars ''.-'')), Lit ''.'',
               Cls (Union Lower Upper), Plus (Union Lower Upper)])"

definition phone_sep :: rx where
  "phone_sep = Opt (Cls (Union (Chars ''-.'') Space))"

definition phone_pattern :: rx where
  "phone_pattern =
    Grp (seqs [Opt (Lit ''+''), Cls Digit, Opt (Cls Digit), phone_sep,
               Opt (Lit ''(''), Cls Digit, d2, Opt (Lit '')''), phone_sep,
               Cls Digit, d2, phone_sep, d2, d2])"

definition requests_data :: "requests_page \<Rightarrow> dict" where
  "requests_data page =
    (let d0 = [];
         d1 = (case rq_title page of None \<Rightarrow> d0
               | Some t \<Rightarrow> AList.update ''title'' (PStr t) d0);
         d2 = (case rq_meta_description page of None \<Rightarrow> d1
               | Some t \<Rightarrow> AList.update ''meta_description'' (PStr t) d1);
         d3 = (case rq_og_description page of None \<Rightarrow> d2
               | Some t \<Rightarrow> AList.update ''og_description'' (PStr t) d2);
         d4 = AList.update ''jsonld'' (PList (rq_jsonld page)) d3;
         text_content = take 8000 (rq_body_text page);
         d5 = AList.update ''text_content'' (PStr text_content) d4;
         links = filter (\<lambda>href. startswith href ''http://'' \<or> startswith href ''https://'')
                   (rq_hrefs page);
         d6 = AList.update ''links'' (PList (map PStr links)) d5;
         text_lower = lower text_content;
         d7 = (case findall_first False email_pattern text_lower of None \<Rightarrow> d6
               | Some m \<Rightarrow> AList.update ''email'' (PStr m) d6);
         d8 = (case findall_first False phone_pattern text_lower of None \<Rightarrow> d7
               | Some m \<Rightarrow> AList.update ''phone'' (PStr m) d7);
         domain = replace ''www.'' [] (rq_netloc page)
     in AList.update ''potential_company_name'' (PStr (takeWhile (\<lambda>c. c \<noteq> CHR ''.'') domain))
          d8)"

definition scrape_with_requests_fallback :: "requests_outcome \<Rightarrow> real \<Rightarrow> scraping_result" where
  "scrape_with_requests_fallback got t =
    (case got of
       RqRaised e \<Rightarrow> failed REQUESTS 0.0 e
     | RqResponse status page \<Rightarrow>
         if status \<noteq> 200
         then (failed REQUESTS 0.0 (''HTTP '' @ str_nat status))\<lparr>processing_time := t\<rparr>
         else
           let d = requests_data page
           in if d = []
              then (failed REQUESTS 0.2 ''No data extracted by requests fallback'')
                     \<lparr>processing_time := t\<rparr>
              else succeeded REQUESTS d (calculate_playwright_confidence d * 0.8) t)"

text \<open>
  Tier 3. The headless browser: it cannot be imported, it cannot be launched, anything
  else raises, or the page is evaluated (with the status of the response, if there is
  one). An error that names \<open>NotImplementedError\<close> or a subprocess leads to the
  fallback; the second component lists the fallback when it ran.
\<close>

datatype playwright_outcome =
    PwImportError | PwLaunchFailed string | PwRaised string | PwPage "nat option" dict

definition compat_error :: "string \<Rightarrow> bool" where
  "compat_error e = (py_in ''NotImplementedError'' e \<or> py_in ''subprocess'' (lower e))"

definition scrape_with_playwright ::
  "playwright_outcome \<Rightarrow> requests_outcome \<Rightarrow> real
    \<Rightarrow> scraping_result \<times> scraping_method list" where
  "scrape_with_playwright got fallback t =
    (case got of
       PwImportError \<Rightarrow> (failed PLAYWRIGHT 0.0 ''Playwright not installed'', [])
     | PwLaunchFailed e \<Rightarrow>
         if compat_error e then (scrape_with_requests_fallback fallback t, [REQUESTS])
         else (failed PLAYWRIGHT 0.0 (''Browser launch failed: '' @ e), [])
     | PwRaised e \<Rightarrow>
         if compat_error e then (scrape_with_requests_fallback fallback t, [REQUESTS])
         else (failed PLAYWRIGHT 0.0 e, [])
     | PwPage status d \<Rightarrow>
         if status \<noteq> None \<and> the status \<noteq> 200
         then (failed PLAYWRIGHT 0.0 (''HTTP '' @ str_nat (the status)), [])
         else if d = [] then (failed PLAYWRIGHT 0.3 ''No data extracted by Playwright'', [])
         else (succeeded PLAYWRIGHT d (calculate_playwright_confidence d) 0.0, []))"

text \<open>
  \<open>scrape\<close>. The world of one call: what each tier would get from the network, and
  the time the fallback measures. The result comes with the tiers that ran, in order;
  \<open>elapsed\<close> is the time \<open>scrape\<close> stamps on the result.
\<close>

record world =
  w_json_ld :: "dict option list fetched"
  w_meta :: "meta_page fetched"
  w_playwright :: playwright_outcome
  w_requests :: requests_outcome
  w_requests_time :: real

definition scrape ::
  "(pyval \<Rightarrow> string) \<Rightarrow> world \<Rightarrow> real \<Rightarrow> scraping_result \<times> scraping_method list" where
  "scrape py_str w elapsed =
    (let result = extract_json_ld py_str (w_json_ld w)
     in if success result \<and> confidence result > 0.7
        then (result\<lparr>processing_time := elapsed\<rparr>, [JSON_LD])
        else
          let result = extract_meta_data (w_meta w)
          in if success result \<and> confidence result > 0.5
             then (result\<lparr>processing_time := elapsed\<rparr>, [JSON_LD, STRUCTURED_DATA])
             else
               let (result, calls) =
                     scrape_with_playwright (w_playwright w) (w_requests w) (w_requests_time w)
               in (result\<lparr>processing_time := elapsed\<rparr>,
                   [JSON_LD, STRUCTURED_DATA, PLAYWRIGHT] @ calls))"

subsection \<open>What a pattern can match and capture\<close>

text \<open>
  The words a pattern matches, and the words its group can capture: the specification
  the matcher is checked against in the proofs below.
\<close>

primrec lang :: "bool \<Rightarrow> rx \<Rightarrow> string \<Rightarrow> bool" where
  "lang ic (Lit p) w = (lit_rest ic p w = Some [])"
| "lang ic (Cls k) w = (\<exists>c. w = [c] \<and> in_class k c)"
| "lang ic (Plus k) w = (w \<noteq> [] \<and> list_all (in_class k) w)"
| "lang ic (Opt r) w = (w = [] \<or> lang ic r w)"
| "lang ic (Seq a b) w = (\<exists>u v. w = u @ v \<and> lang ic a u \<and> lang ic b v)"
| "lang ic (Alt a b) w = (lang ic a w \<or> lang ic b w)"
| "lang ic (Grp r) w = lang ic r w"

primrec caps :: "bool \<Rightarrow> rx \<Rightarrow> string \<Rightarrow> bool" where
  "caps ic (Lit p) g = False"
| "caps ic (Cls k) g = False"
| "caps ic (Plus k) g = False"
| "caps ic (Opt r) g = caps ic r g"
| "caps ic (Seq a b) g = (caps ic a g \<or> caps ic b g)"
| "caps ic (Alt a b) g = (caps ic a g \<or> caps ic b g)"
| "caps ic (Grp r) g = lang ic r g"

text \<open>The shape of a captured year: \<open>19dd\<close>, \<open>20dd\<close> or \<open>'dd\<close>.\<close>

definition year_shape :: "string \<Rightarrow> bool" where
  "year_shape g =
    (\<exists>a b. is_digit a \<and> is_digit b
       \<and> (g = ''19'' @ [a, b] \<or> g = ''20'' @ [a, b] \<or> g = [CHR 0x27, a, b]))"

text \<open>
  Where a founding keyword stands in a text: \<open>keyword_at u\<close> when one of the five
  words starts \<open>u\<close>, in any case; \<open>no_keyword_before pre s\<close> when none starts at a
  position inside \<open>pre\<close> in the text \<open>pre @ s\<close>.
\<close>

definition founding_list :: "string list" where
  "founding_list = [''founded'', ''established'', ''started'', ''launched'', ''incorporated'']"

definition keyword_at :: "string \<Rightarrow> bool" where
  "keyword_at u = (\<exists>w \<in> set founding_list. lit_rest True w u \<noteq> None)"

fun no_keyword_before :: "string \<Rightarrow> string \<Rightarrow> bool" where
  "no_keyword_before [] s = True"
| "no_keyword_before (c # pre) s = (\<not> keyword_at (c # pre @ s) \<and> no_keyword_before pre s)"

text \<open>The scraped text of the enrichment scenario of the specification.\<close>

definition scenario_text :: string where
  "scenario_text = ''We are a 120-person SaaS platform founded in 2014''"

definition no_llm :: llm_env where
  "no_llm = \<lparr>api_key = None, outcome = LlmRaised\<rparr>"

text \<open>A text on which every heuristic finds something, and a model that answers.\<close>

definition rich_text :: string where
  "rich_text = ''Acme is a software startup. CEO Jane Doe founded in 2014''"

definition answering_llm :: llm_env where
  "answering_llm =
    \<lparr>api_key = Some ''gsk_test'',
     outcome = LlmParsed [(''industry'', PStr ''Software''), (''employees'', PNone)]\<rparr>"

definition api_result_065 :: enrichment_result where
  "api_result_065 =
    \<lparr>enr_success = True, enr_data = [(''industry'', PStr ''Software'')],
     enr_method = EXTERNAL_API, enr_confidence = 0.65, enr_processing_time = 0\<rparr>"

text \<open>
  Four worlds for \<open>scrape\<close>: a page with a JSON-LD organisation; no JSON-LD but a title
  and a description; a page that only the browser can read; and a browser that cannot
  be launched, so that the plain request runs.
\<close>

definition plain_page :: requests_page where
  "plain_page =
    \<lparr>rq_title = Some ''Acme'', rq_meta_description = None, rq_og_description = None,
     rq_jsonld = [], rq_body_text = ''Mail info@acme.io'', rq_hrefs = [''/about''],
     rq_netloc = ''www.acme.io''\<rparr>"

definition empty_meta_page :: meta_page where
  "empty_meta_page =
    \<lparr>mp_title = None, mp_description = None, mp_og = [], mp_twitter = [], mp_links = []\<rparr>"

definition json_ld_world :: world where
  "json_ld_world =
    \<lparr>w_json_ld = Response 200
       [Some [(''@type'', PStr ''Organization''), (''name'', PStr ''Acme''),
              (''description'', PStr ''Widgets''), (''url'', PStr ''https://acme.io''),
              (''address'', PStr ''1 Main St'')]],
     w_meta = NoSession, w_playwright = PwImportError, w_requests = RqRaised ''unused'',
     w_requests_time = 0\<rparr>"

definition meta_world :: world where
  "meta_world =
    \<lparr>w_json_ld = Response 200 [],
     w_meta = Response 200
       \<lparr>mp_title = Some ''Acme'', mp_description = Some ''Widgets'', mp_og = [],
        mp_twitter = [], mp_links = []\<rparr>,
     w_playwright = PwImportError, w_requests = RqRaised ''unused'', w_requests_time = 0\<rparr>"

definition browser_world :: world where
  "browser_world =
    \<lparr>w_json_ld = Response 404 [], w_meta = Response 404 empty_meta_page,
     w_playwright = PwPage (Some 200) [(''title'', PStr ''Acme'')],
     w_requests = RqRaised ''unused'', w_requests_time = 0\<rparr>"

definition fallback_world :: world where
  "fallback_world =
    \<lparr>w_json_ld = Response 404 [], w_meta = Response 404 empty_meta_page,
     w_playwright = PwLaunchFailed ''NotImplementedError'',
     w_requests = RqResponse 200 plain_page, w_requests_time = 2\<rparr>"

section \<open>Properties of the scorer\<close>

lemma score_loop_total:
  "snd (score_loop l cs (scores, tot)) = tot + sum_list (map (evaluate_criterion l) cs)"
  by (induction cs arbitrary: scores tot) (simp_all add: Let_def add.assoc)

lemma score_lead_total:
  "total_score (score_lead l custom) =
     min (sum_list (map (evaluate_criterion l) (criteria_of custom))) 100"
proof -
  obtain scores tot where st: "score_loop l (criteria_of custom) ([], 0) = (scores, tot)"
    by (cases "score_loop l (criteria_of custom) ([], 0)")
  have "tot = sum_list (map (evaluate_criterion l) (criteria_of custom))"
    using score_loop_total [of l "criteria_of custom" "[]" 0] st by simp
  then show ?thesis
    by (simp add: score_lead_def st Let_def)
qed

lemma score_lead_label:
  "qualification_label (score_lead l custom) = classify_lead (total_score (score_lead l custom))"
  by (simp add: score_lead_def Let_def split: prod.splits)

lemma default_sum:
  "sum_list (map (evaluate_criterion l) default_criteria) =
     evaluate_industry_match l (default_criteria ! 0)
   + evaluate_company_size l (default_criteria ! 1)
   + quality (email_confidence l) + quality (scrape_confidence l)
   + quality (enrichment_confidence l)
   + evaluate_linkedin_presence l (default_criteria ! 5)"
  by (simp add: default_criteria_def evaluate_criterion_def evaluate_email_quality_def
      evaluate_scrape_quality_def evaluate_enrichment_quality_def quality_def)

lemma quality_nonneg: "0 \<le> quality c"
  by (simp add: quality_def)

lemma quality_mono: "c \<le> c' \<Longrightarrow> quality c \<le> quality c'"
  by (simp add: quality_def)

lemma industry_match_nonneg: "0 \<le> evaluate_industry_match l (default_criteria ! 0)"
  by (simp add: evaluate_industry_match_def default_criteria_def)

lemma company_size_nonneg: "0 \<le> evaluate_company_size l (default_criteria ! 1)"
  by (simp add: evaluate_company_size_def default_criteria_def)

lemma linkedin_nonneg: "0 \<le> evaluate_linkedin_presence l (default_criteria ! 5)"
  by (simp add: evaluate_linkedin_presence_def default_criteria_def)

lemma default_total_nonneg: "0 \<le> total_score (score_lead l None)"
proof -
  have "0 \<le> sum_list (map (evaluate_criterion l) default_criteria)"
    unfolding default_sum
    using industry_match_nonneg [of l] company_size_nonneg [of l] linkedin_nonneg [of l]
      quality_nonneg [of "email_confidence l"] quality_nonneg [of "scrape_confidence l"]
      quality_nonneg [of "enrichment_confidence l"]
    by linarith
  then show ?thesis
    by (simp add: score_lead_total criteria_of_def)
qed

lemma default_total_le: "total_score (score_lead l None) \<le> 100"
  by (simp add: score_lead_total)

lemma email_mono:
  assumes "c \<le> c'"
  shows "total_score (score_lead (l\<lparr>email_confidence := c\<rparr>) None)
       \<le> total_score (score_lead (l\<lparr>email_confidence := c'\<rparr>) None)"
proof -
  have "sum_list (map (evaluate_criterion (l\<lparr>email_confidence := c\<rparr>)) default_criteria)
      \<le> sum_list (map (evaluate_criterion (l\<lparr>email_confidence := c'\<rparr>)) default_criteria)"
    unfolding default_sum using quality_mono [OF assms]
    by (simp add: evaluate_industry_match_def evaluate_company_size_def
        evaluate_linkedin_presence_def)
  then show ?thesis
    by (simp add: score_lead_total criteria_of_def)
qed

lemma scrape_mono:
  assumes "c \<le> c'"
  shows "total_score (score_lead (l\<lparr>scrape_confidence := c\<rparr>) None)
       \<le> total_score (score_lead (l\<lparr>scrape_confidence := c'\<rparr>) None)"
proof -
  have "sum_list (map (evaluate_criterion (l\<lparr>scrape_confidence := c\<rparr>)) default_criteria)
      \<le> sum_list (map (evaluate_criterion (l\<lparr>scrape_confidence := c'\<rparr>)) default_criteria)"
    unfolding default_sum using quality_mono [OF assms]
    by (simp add: evaluate_industry_match_def evaluate_company_size_def
        evaluate_linkedin_presence_def)
  then show ?thesis
    by (simp add: score_lead_total criteria_of_def)
qed

lemma enrichment_mono:
  assumes "c \<le> c'"
  shows "total_score (score_lead (l\<lparr>enrichment_confidence := c\<rparr>) None)
       \<le> total_score (score_lead (l\<lparr>enrichment_confidence := c'\<rparr>) None)"
proof -
  have "sum_list (map (evaluate_criterion (l\<lparr>enrichment_confidence := c\<rparr>)) default_criteria)
      \<le> sum_list (map (evaluate_criterion (l\<lparr>enrichment_confidence := c'\<rparr>)) default_criteria)"
    unfolding default_sum using quality_mono [OF assms]
    by (simp add: evaluate_industry_match_def evaluate_company_size_def
        evaluate_linkedin_presence_def)
  then show ?thesis
    by (simp add: score_lead_total criteria_of_def)
qed

text \<open>
  C5. For every lead, \<open>score_lead\<close> (with the default criteria, as the orchestrator calls
  it) returns a total score between 0 and 100, and the total does not decrease when one of
  \<open>email_confidence\<close>, \<open>scrape_confidence\<close>, \<open>enrichment_confidence\<close> is raised and every
  other field of the lead is kept.
\<close>

theorem score_lead_bounded_monotone:
  "0 \<le> total_score (score_lead l None) \<and> total_score (score_lead l None) \<le> 100
   \<and> (c \<le> c' \<longrightarrow>
        total_score (score_lead (l\<lparr>email_confidence := c\<rparr>) None)
          \<le> total_score (score_lead (l\<lparr>email_confidence := c'\<rparr>) None)
      \<and> total_score (score_lead (l\<lparr>scrape_confidence := c\<rparr>) None)
          \<le> total_score (score_lead (l\<lparr>scrape_confidence := c'\<rparr>) None)
      \<and> total_score (score_lead (l\<lparr>enrichment_confidence := c\<rparr>) None)
          \<le> total_score (score_lead (l\<lparr>enrichment_confidence := c'\<rparr>) None))"
  using default_total_nonneg [of l] default_total_le [of l]
    email_mono [of c c' l] scrape_mono [of c c' l] enrichment_mono [of c c' l]
  by blast

theorem score_lead_bounded_monotone_witness:
  "(0.5::real) \<le> 0.7
   \<and> 0 \<le> total_score (score_lead sample_lead None)
   \<and> total_score (score_lead sample_lead None) \<le> 100
   \<and> total_score (score_lead (sample_lead\<lparr>email_confidence := 0.5\<rparr>) None)
       \<le> total_score (score_lead (sample_lead\<lparr>email_confidence := 0.7\<rparr>) None)
   \<and> total_score (score_lead (sample_lead\<lparr>email_confidence := 0.5\<rparr>) None) = 80.5
   \<and> total_score (score_lead (sample_lead\<lparr>email_confidence := 0.7\<rparr>) None) = 91"
proof -
  have h: "(0.5::real) \<le> 0.7" by simp
  have a: "total_score (score_lead (sample_lead\<lparr>email_confidence := 0.5\<rparr>) None) = 80.5"
    unfolding score_lead_total criteria_of_def option.case default_sum
    by (simp add: quality_def sample_lead_def evaluate_industry_match_def
        evaluate_company_size_def evaluate_linkedin_presence_def default_criteria_def
        preferred_industries_def preferred_sizes_def)
  have b: "total_score (score_lead (sample_lead\<lparr>email_confidence := 0.7\<rparr>) None) = 91"
    unfolding score_lead_total criteria_of_def option.case default_sum
    by (simp add: quality_def sample_lead_def evaluate_industry_match_def
        evaluate_company_size_def evaluate_linkedin_presence_def default_criteria_def
        preferred_industries_def preferred_sizes_def)
  show ?thesis
    using h a b score_lead_bounded_monotone [of sample_lead "0.5" "0.7"] by simp
qed

text \<open>
  C6. \<open>score_lead\<close> returns \<open>min(100, sum of the criterion scores)\<close>, over the criteria in
  force, and labels it by bands: Hot Lead exactly from 80, Warm Lead exactly in [60, 80),
  Cold Lead exactly in [40, 60), Disqualified exactly below 40.
\<close>

theorem score_lead_total_and_label:
  "total_score (score_lead l custom) =
     min 100 (sum_list (map (evaluate_criterion l) (criteria_of custom)))
   \<and> (qualification_label (score_lead l custom) = ''Hot Lead''
        \<longleftrightarrow> 80 \<le> total_score (score_lead l custom))
   \<and> (qualification_label (score_lead l custom) = ''Warm Lead''
        \<longleftrightarrow> 60 \<le> total_score (score_lead l custom) \<and> total_score (score_lead l custom) < 80)
   \<and> (qualification_label (score_lead l custom) = ''Cold Lead''
        \<longleftrightarrow> 40 \<le> total_score (score_lead l custom) \<and> total_score (score_lead l custom) < 60)
   \<and> (qualification_label (score_lead l custom) = ''Disqualified''
        \<longleftrightarrow> total_score (score_lead l custom) < 40)"
  unfolding score_lead_label
  by (auto simp add: score_lead_total classify_lead_def min.commute)

theorem score_lead_total_and_label_witness:
  "total_score (score_lead sample_lead None) = 80.5
   \<and> qualification_label (score_lead sample_lead None) = ''Hot Lead''"
proof -
  have a: "sum_list (map (evaluate_criterion sample_lead) (criteria_of None)) = 80.5"
    unfolding criteria_of_def option.case default_sum
    by (simp add: quality_def sample_lead_def evaluate_industry_match_def
        evaluate_company_size_def evaluate_linkedin_presence_def default_criteria_def
        preferred_industries_def preferred_sizes_def)
  show ?thesis
    using a score_lead_total_and_label [of sample_lead None] by simp
qed

section \<open>Properties of the quota gate and of bulk lead creation\<close>

lemma str_nat_4: "str_nat 4 = ''4''"
  by (simp add: digit_char_def)

lemma str_int_3: "str_int 3 = ''3''"
  by (simp add: str_int_def digit_char_def)

lemma usage_state_with: "get_daily_usage (db (state_with n)) 10 1 = int n"
  by (simp add: state_with_def get_daily_usage_def lead_at_def create_lead_def
      start_of_day_def end_of_day_def day_us_def filter_map comp_def Let_def)

lemma remaining_state_with:
  "remaining_daily_leads (get_organization_usage default_config (db (state_with n)) 10 1)
     = max 0 (10 - int n)"
  using usage_state_with [of n]
  by (simp add: get_organization_usage_def Let_def default_config_def state_with_def)

lemma remaining_is_max:
  "remaining_daily_leads (get_organization_usage cfg d now org) =
     max 0 (max_leads_per_day (get_organization_usage cfg d now org)
            - get_daily_usage d now org)"
  by (simp add: get_organization_usage_def Let_def case_prod_beta)

lemma can_process_iff:
  "can_process_more_today (get_organization_usage cfg d now org) =
     (0 < remaining_daily_leads (get_organization_usage cfg d now org))"
  by (simp add: get_organization_usage_def Let_def case_prod_beta)

lemma quota_zero:
  assumes "urls \<noteq> []"
      and "remaining_daily_leads
             (get_organization_usage cfg (db st) now (user_organization_id u)) = 0"
  shows "create_leads_from_urls cfg now urls u st =
           (Inl (HTTPException 429 ''Daily lead limit exceeded for your subscription plan''), st)"
proof -
  have "\<not> can_create_lead cfg (db st) now (user_organization_id u)"
    using assms(2) by (simp add: can_create_lead_def can_process_iff)
  then show ?thesis using assms(1) by (simp add: create_leads_from_urls_def)
qed

lemma batch_exceeds:
  assumes "0 < remaining_daily_leads
             (get_organization_usage cfg (db st) now (user_organization_id u))"
      and "remaining_daily_leads
             (get_organization_usage cfg (db st) now (user_organization_id u)) < int (length urls)"
  shows "create_leads_from_urls cfg now urls u st =
           (Inl (HTTPException 429
                  (''Cannot create '' @ str_nat (length urls) @ '' leads. Only ''
                   @ str_int (remaining_daily_leads
                       (get_organization_usage cfg (db st) now (user_organization_id u)))
                   @ '' leads remaining for today.'')), st)"
proof -
  have c: "can_create_lead cfg (db st) now (user_organization_id u)"
    using assms(1) by (simp add: can_create_lead_def can_process_iff)
  have "urls \<noteq> []" using assms by auto
  then show ?thesis using c assms(2) by (simp add: create_leads_from_urls_def Let_def)
qed

lemma remaining_full: 
  "remaining_daily_leads (get_organization_usage default_config (db (state_with 10)) 10
     (user_organization_id sample_user)) = 0"
  using remaining_state_with [of 10] by (simp add: sample_user_def)

lemma remaining_seven: 
  "remaining_daily_leads (get_organization_usage default_config (db (state_with 7)) 10
     (user_organization_id sample_user)) = 3"
  using remaining_state_with [of 7] by (simp add: sample_user_def)

lemma no_urls_400:
  "create_leads_from_urls cfg now [] u st = (Inl (HTTPException 400 ''No URLs provided''), st)"
  by (simp add: create_leads_from_urls_def)

text \<open>
  C7, as stated, fails twice on a free-plan organisation that has used its 10 leads of
  the day (0 remaining): a request with no URL is answered 400, not 429; and a request
  for one lead, a batch larger than the 0 remaining, is answered with the detail of the
  first check, not with "Cannot create 1 leads. Only 0 leads remaining for today.".
\<close>

theorem create_leads_counterexample:
  "remaining_daily_leads (get_organization_usage default_config (db (state_with 10)) 10
     (user_organization_id sample_user)) = 0
   \<and> fst (create_leads_from_urls default_config 10 [] sample_user (state_with 10))
       = Inl (HTTPException 400 ''No URLs provided'')
   \<and> fst (create_leads_from_urls default_config 10 [''x''] sample_user (state_with 10))
       = Inl (HTTPException 429 ''Daily lead limit exceeded for your subscription plan'')
   \<and> fst (create_leads_from_urls default_config 10 [''x''] sample_user (state_with 10))
       \<noteq> Inl (HTTPException 429 ''Cannot create 1 leads. Only 0 leads remaining for today.'')"
proof -
  have a: "fst (create_leads_from_urls default_config 10 [] sample_user (state_with 10))
       = Inl (HTTPException 400 ''No URLs provided'')"
    by (simp add: create_leads_from_urls_def)
  have b: "create_leads_from_urls default_config 10 [''x''] sample_user (state_with 10)
       = (Inl (HTTPException 429 ''Daily lead limit exceeded for your subscription plan''),
          state_with 10)"
    using quota_zero [of "[''x'']" default_config "state_with 10" 10 sample_user] remaining_full
    by simp
  show ?thesis using a b remaining_full by simp
qed

text \<open>
  C7, amended. The remaining daily leads are \<open>max(0, plan cap - leads created today)\<close>.
  For every bulk request with at least one URL: when the remaining count is 0 the endpoint
  answers 429 ("Daily lead limit exceeded for your subscription plan") and leaves the
  database and the background tasks as they were; when the remaining count is positive
  and smaller than the batch, it answers 429 with the detail
  "Cannot create n leads. Only m leads remaining for today." and again changes nothing.
  A request with no URL is answered 400 ("No URLs provided"), whatever the plan, the
  usage and the day: the quota is not consulted, and nothing is changed.
\<close>

theorem create_leads_quota_gate:
  "remaining_daily_leads (get_organization_usage cfg (db st) now (user_organization_id u))
     = max 0 (max_leads_per_day
                (get_organization_usage cfg (db st) now (user_organization_id u))
              - get_daily_usage (db st) now (user_organization_id u))
   \<and> (urls \<noteq> [] \<and> remaining_daily_leads
          (get_organization_usage cfg (db st) now (user_organization_id u)) = 0
       \<longrightarrow> create_leads_from_urls cfg now urls u st =
            (Inl (HTTPException 429 ''Daily lead limit exceeded for your subscription plan''),
             st))
   \<and> (0 < remaining_daily_leads
             (get_organization_usage cfg (db st) now (user_organization_id u))
       \<and> remaining_daily_leads
             (get_organization_usage cfg (db st) now (user_organization_id u))
           < int (length urls)
       \<longrightarrow> create_leads_from_urls cfg now urls u st =
            (Inl (HTTPException 429
                   (''Cannot create '' @ str_nat (length urls) @ '' leads. Only ''
                    @ str_int (remaining_daily_leads
                        (get_organization_usage cfg (db st) now (user_organization_id u)))
                    @ '' leads remaining for today.'')), st))
   \<and> create_leads_from_urls cfg now [] u st
       = (Inl (HTTPException 400 ''No URLs provided''), st)"
  using remaining_is_max [of cfg "db st" now "user_organization_id u"]
    quota_zero [of urls cfg st now u] batch_exceeds [of cfg st now u urls]
    no_urls_400 [of cfg now u st]
  by blast

theorem create_leads_quota_gate_witness:
  "create_leads_from_urls default_config 10 [''x''] sample_user (state_with 10)
     = (Inl (HTTPException 429 ''Daily lead limit exceeded for your subscription plan''),
        state_with 10)
   \<and> create_leads_from_urls default_config 10 [''u1'', ''u2'', ''u3'', ''u4''] sample_user
       (state_with 7)
     = (Inl (HTTPException 429 ''Cannot create 4 leads. Only 3 leads remaining for today.''),
        state_with 7)
   \<and> create_leads_from_urls default_config 10 [] sample_user (state_with 10)
     = (Inl (HTTPException 400 ''No URLs provided''), state_with 10)"
proof -
  have a: "create_leads_from_urls default_config 10 [''x''] sample_user (state_with 10)
     = (Inl (HTTPException 429 ''Daily lead limit exceeded for your subscription plan''),
        state_with 10)"
    using create_leads_quota_gate [of default_config "state_with 10" 10 sample_user "[''x'']"]
      remaining_full by simp
  have b: "create_leads_from_urls default_config 10 [''u1'', ''u2'', ''u3'', ''u4''] sample_user
       (state_with 7)
     = (Inl (HTTPException 429 ''Cannot create 4 leads. Only 3 leads remaining for today.''),
        state_with 7)"
    using create_leads_quota_gate [of default_config "state_with 7" 10 sample_user
        "[''u1'', ''u2'', ''u3'', ''u4'']"] remaining_seven
    by (simp add: str_int_def digit_char_def)
  have c: "create_leads_from_urls default_config 10 [] sample_user (state_with 10)
     = (Inl (HTTPException 400 ''No URLs provided''), state_with 10)"
    using create_leads_quota_gate [of default_config "state_with 10" 10 sample_user "[]"]
    by blast
  show ?thesis using a b c by simp
qed

section \<open>Properties of the token refresh endpoint\<close>

lemma verify_token_type:
  "verify_token now t = Inr (uid, ty) \<Longrightarrow> ty = ''access''"
  by (auto simp add: verify_token_def split: sum.splits jwt_error.splits if_splits)

lemma refresh_body_fails: "\<exists>e. refresh_body now users t = Inl e"
proof (cases "verify_token now t")
  case (Inl e)
  then show ?thesis by (simp add: refresh_body_def)
next
  case (Inr p)
  obtain uid ty where p: "p = (uid, ty)" by (cases p)
  have "ty = ''access''" using Inr p verify_token_type by blast
  then show ?thesis using Inr p by (simp add: refresh_body_def)
qed

text \<open>
  Whatever the token, \<open>POST /refresh\<close> answers 401: \<open>verify_token\<close> lets only tokens of
  type "access" through, and the endpoint then rejects every type but "refresh".
\<close>

lemma refresh_token_always_401:
  "refresh_token now users t = Inl (HTTPException 401 ''Invalid refresh token'')"
  using refresh_body_fails [of now users t] by (auto simp add: refresh_token_def)

text \<open>
  C9. The claim asks that a valid, unexpired refresh token (claims \<open>sub\<close> and
  \<open>type = "refresh"\<close>) be answered with a new access token. The code answers 401: the
  token that \<open>create_refresh_token\<close> issued at time 0 for the active user 1, presented at
  time 100, decodes without error and is refused.
\<close>

theorem refresh_rejects_valid_refresh_token:
  "jwt_decode 100 (create_refresh_token 0 ''1'') = Inr (create_refresh_token 0 ''1'')
   \<and> claim_sub (create_refresh_token 0 ''1'') = Some ''1''
   \<and> claim_type (create_refresh_token 0 ''1'') = Some ''refresh''
   \<and> get_user [sample_user] ''1'' = Some sample_user
   \<and> is_active sample_user
   \<and> refresh_token 100 [sample_user] (create_refresh_token 0 ''1'')
       = Inl (HTTPException 401 ''Invalid refresh token'')"
  by (simp add: jwt_decode_def create_refresh_token_def get_user_def sample_user_def
      digit_char_def refresh_token_def refresh_body_def verify_token_def)

section \<open>Properties of the messenger\<close>

lemma lead_at_eq:
  "lead_at i t =
    \<lparr>lead_id = i, organization_id = 1, owner_id = 1,
     company_name = None, website = ''https://example.com'', industry = None,
     about_text = None, contact_name = None, contact_title = None, linkedin_url = None,
     employees = None, revenue_band = None, founded_year = None, scrape_confidence = 0,
     email_confidence = 0, enrichment_confidence = 0, enrichment_source = ''none'',
     created_at = t\<rparr>"
  by (simp add: lead_at_def create_lead_def Let_def)

lemma template_industry:
  assumes "truthy_str (company_name l)" and "truthy_str (industry l)"
  shows "generate_template_message s l =
     (let contact_ref = or_else (contact_name l) ''the team'';
          industry_key = filter (\<lambda>c. c \<noteq> CHR '' '') (lower (the (industry l)))
      in if industry_key = ''software''
         then software_template s contact_ref (the (company_name l))
         else if industry_key = ''consulting''
         then consulting_template s contact_ref (the (company_name l))
         else if industry_key = ''ecommerce''
         then ecommerce_template s contact_ref (the (company_name l))
         else default_industry_template s contact_ref (the (company_name l)) (industry l))"
  using assms
  by (simp add: generate_template_message_def get_industry_template_def or_else_def Let_def)

lemma template_generic:
  assumes "truthy_str (company_name l)" and "\<not> truthy_str (industry l)"
  shows "generate_template_message s l = get_generic_template s l"
  using assms by (simp add: generate_template_message_def)

lemma template_website_only:
  assumes "\<not> truthy_str (company_name l)"
  shows "generate_template_message s l = get_website_only_template s l"
  using assms by (simp add: generate_template_message_def)

lemma website_only_text:
  assumes "\<not> truthy_str (company_name l)" and "website l \<noteq> []"
  shows "get_website_only_template s l =
     ''Hi team,\<newline>\<newline>I visited '' @ website l
     @ '' and was impressed by your company's work. At '' @ s
     @ '', we help companies like yours navigate growth challenges and operational efficiencies. I'd be interested in exploring potential synergies.\<newline>\<newline>Best regards,\<newline>''
     @ s"
  using assms by (simp add: get_website_only_template_def or_else_def)

lemma website_only_frame:
  "get_website_only_template s (l\<lparr>industry := i, contact_name := c, contact_title := ct\<rparr>)
     = get_website_only_template s l"
  by (simp add: get_website_only_template_def)

lemma thin_lead_uses_template:
  assumes "\<not> has_sufficient_data l"
  shows "generate_message s llm l = generate_template_message s l"
  using assms by (simp add: generate_message_def)

text \<open>
  C8. The template is chosen from the fields the lead has. With a company name and an
  industry: the template keyed by the industry in lower case without spaces (software,
  consulting, ecommerce), otherwise the generic template that names the industry. With a
  company name only: the generic company template. Without a company name: the
  website-only template, whose text is built from the URL and the sender alone (it reads
  the same whatever the industry and the contact fields hold), and a lead without
  sufficient data gets the template whatever the language model would answer.
\<close>

theorem template_selection:
  "(truthy_str (company_name l) \<and> truthy_str (industry l) \<longrightarrow>
      generate_template_message s l =
       (let contact_ref = or_else (contact_name l) ''the team'';
            industry_key = filter (\<lambda>c. c \<noteq> CHR '' '') (lower (the (industry l)))
        in if industry_key = ''software''
           then software_template s contact_ref (the (company_name l))
           else if industry_key = ''consulting''
           then consulting_template s contact_ref (the (company_name l))
           else if industry_key = ''ecommerce''
           then ecommerce_template s contact_ref (the (company_name l))
           else default_industry_template s contact_ref (the (company_name l)) (industry l)))
   \<and> (truthy_str (company_name l) \<and> \<not> truthy_str (industry l) \<longrightarrow>
        generate_template_message s l = get_generic_template s l)
   \<and> (\<not> truthy_str (company_name l) \<longrightarrow>
        generate_template_message s l = get_website_only_template s l
        \<and> generate_template_message s
            (l\<lparr>industry := i, contact_name := c, contact_title := ct\<rparr>)
          = get_website_only_template s l
        \<and> (website l \<noteq> [] \<longrightarrow>
             generate_template_message s l =
               ''Hi team,\<newline>\<newline>I visited '' @ website l
               @ '' and was impressed by your company's work. At '' @ s
               @ '', we help companies like yours navigate growth challenges and operational efficiencies. I'd be interested in exploring potential synergies.\<newline>\<newline>Best regards,\<newline>''
               @ s))
   \<and> (\<not> has_sufficient_data l \<longrightarrow>
        generate_message s llm l = generate_template_message s l)"
proof -
  have frame: "\<not> truthy_str (company_name l) \<Longrightarrow>
      generate_template_message s (l\<lparr>industry := i, contact_name := c, contact_title := ct\<rparr>)
        = get_website_only_template s l"
    using template_website_only [of "l\<lparr>industry := i, contact_name := c, contact_title := ct\<rparr>" s]
      website_only_frame [where s = s and l = l and i = i and c = c and ct = ct]
    by simp
  show ?thesis
    using template_industry [of l s] template_generic [of l s] template_website_only [of l s]
      website_only_text [of l s] thin_lead_uses_template [of l s llm] frame
    by presburger
qed

theorem template_selection_witness:
  "generate_message ''Our Company'' (Some ''Dear Acme, as a fintech leader...'') website_lead =
     ''Hi team,\<newline>\<newline>I visited https://acme.io and was impressed by your company's work. At Our Company, we help companies like yours navigate growth challenges and operational efficiencies. I'd be interested in exploring potential synergies.\<newline>\<newline>Best regards,\<newline>Our Company''
   \<and> generate_template_message ''Our Company'' sample_lead =
     ''Hi the team,\<newline>\<newline>I came across Acme in the software space and was impressed by your work. At Our Company, we help software companies optimize their operations and growth. I'd love to explore how we might add value to Acme's journey.\<newline>\<newline>Best regards,\<newline>Our Company''"
proof -
  have w: "\<not> truthy_str (company_name website_lead) \<and> website website_lead = ''https://acme.io''
           \<and> \<not> has_sufficient_data website_lead"
    by (simp add: website_lead_def lead_at_eq has_sufficient_data_def)
  have a: "generate_message ''Our Company'' (Some ''Dear Acme, as a fintech leader...'')
             website_lead =
     ''Hi team,\<newline>\<newline>I visited https://acme.io and was impressed by your company's work. At Our Company, we help companies like yours navigate growth challenges and operational efficiencies. I'd be interested in exploring potential synergies.\<newline>\<newline>Best regards,\<newline>Our Company''"
  proof -
    note t = template_selection [where l = website_lead and s = "''Our Company''"
        and llm = "Some ''Dear Acme, as a fintech leader...''"]
    have t1: "generate_message ''Our Company'' (Some ''Dear Acme, as a fintech leader...'')
                website_lead = generate_template_message ''Our Company'' website_lead"
      using w t by blast
    have t2: "generate_template_message ''Our Company'' website_lead =
               ''Hi team,\<newline>\<newline>I visited '' @ website website_lead
               @ '' and was impressed by your company's work. At '' @ ''Our Company''
               @ '', we help companies like yours navigate growth challenges and operational efficiencies. I'd be interested in exploring potential synergies.\<newline>\<newline>Best regards,\<newline>''
               @ ''Our Company''"
      using w t by fastforce
    show ?thesis unfolding t1 t2 using w by simp
  qed
  have k: "filter (\<lambda>c. c \<noteq> CHR '' '') (lower ''Software'') = ''software''"
    by (simp add: lower_def lower_char_def)
  have b: "generate_template_message ''Our Company'' sample_lead =
     ''Hi the team,\<newline>\<newline>I came across Acme in the software space and was impressed by your work. At Our Company, we help software companies optimize their operations and growth. I'd love to explore how we might add value to Acme's journey.\<newline>\<newline>Best regards,\<newline>Our Company''"
  proof -
    note t = template_selection [where l = sample_lead and s = "''Our Company''"]
    have c: "truthy_str (company_name sample_lead) \<and> truthy_str (industry sample_lead)"
      by (simp add: sample_lead_def)
    have "generate_template_message ''Our Company'' sample_lead =
            software_template ''Our Company'' (or_else (contact_name sample_lead) ''the team'')
              (the (company_name sample_lead))"
      using c t k by (simp add: sample_lead_def)
    then show ?thesis
      by (simp add: sample_lead_def or_else_def software_template_def)
  qed
  show ?thesis using a b by simp
qed

section \<open>Properties of the matcher and of the year extraction\<close>

lemma lower_char_not_upper: "\<not> is_upper c \<Longrightarrow> lower_char c = c"
  by (auto simp add: lower_char_def is_upper_def)

lemma lower_char_upper: "is_upper c \<Longrightarrow> is_lower (lower_char c)"
  by (auto simp add: lower_char_def is_upper_def is_lower_def)

lemma lower_char_eq_nonletter:
  assumes "lower_char c = p" and "\<not> is_lower p"
  shows "c = p"
proof (cases "is_upper c")
  case True
  then show ?thesis using lower_char_upper [of c] assms by simp
next
  case False
  then show ?thesis using lower_char_not_upper [of c] assms by simp
qed

lemma lit_rest_split:
  "lit_rest ic p s = Some r \<Longrightarrow> \<exists>pre. s = pre @ r \<and> lit_rest ic p pre = Some []"
proof (induction ic p s rule: lit_rest.induct)
  case (1 ic s)
  then show ?case by simp
next
  case (2 ic p ps)
  then show ?case by simp
next
  case (3 ic p ps c cs)
  show ?case
  proof (cases "char_eq ic c p")
    case True
    then have "lit_rest ic ps cs = Some r" using "3.prems" by simp
    with "3.IH" True obtain pre where "cs = pre @ r" "lit_rest ic ps pre = Some []" by blast
    then have "c # cs = (c # pre) @ r \<and> lit_rest ic (p # ps) (c # pre) = Some []"
      using True by simp
    then show ?thesis by blast
  next
    case False
    with 3 show ?thesis by simp
  qed
qed

lemma plus_rests_split:
  "r \<in> set (plus_rests k s) \<Longrightarrow> \<exists>pre. s = pre @ r \<and> pre \<noteq> [] \<and> list_all (in_class k) pre"
proof (induction s)
  case Nil
  then show ?case by simp
next
  case (Cons c cs)
  show ?case
  proof (cases "in_class k c")
    case False
    with Cons show ?thesis by simp
  next
    case True
    with Cons.prems have "r \<in> set (plus_rests k cs) \<or> r = cs" by auto
    then show ?thesis
    proof
      assume "r \<in> set (plus_rests k cs)"
      with Cons.IH obtain pre where "cs = pre @ r" "list_all (in_class k) pre" by blast
      then have "c # cs = (c # pre) @ r \<and> c # pre \<noteq> [] \<and> list_all (in_class k) (c # pre)"
        using True by simp
      then show ?thesis by blast
    next
      assume "r = cs"
      then have "c # cs = [c] @ r \<and> [c] \<noteq> [] \<and> list_all (in_class k) [c]"
        using True by simp
      then show ?thesis by blast
    qed
  qed
qed

lemma rmatch_sound:
  "(rest, cap) \<in> set (rmatch ic r (s, c0)) \<Longrightarrow>
     (\<exists>pre. s = pre @ rest \<and> lang ic r pre) \<and> (cap = c0 \<or> (\<exists>g. cap = Some g \<and> caps ic r g))"
proof (induction r arbitrary: s c0 rest cap)
  case (Lit p)
  then show ?case using lit_rest_split [of ic p s rest]
    by (auto split: option.splits)
next
  case (Cls k)
  then show ?case by (auto split: list.splits if_splits)
next
  case (Plus k)
  then show ?case using plus_rests_split [of rest k s] by auto
next
  case (Opt r)
  from Opt.prems have "(rest, cap) \<in> set (rmatch ic r (s, c0)) \<or> (rest, cap) = (s, c0)"
    by auto
  then show ?case
  proof
    assume "(rest, cap) \<in> set (rmatch ic r (s, c0))"
    from Opt.IH [OF this] show ?thesis by auto
  next
    assume "(rest, cap) = (s, c0)"
    then show ?thesis by auto
  qed
next
  case (Seq a b)
  from Seq.prems obtain mid c1 where
    m: "(mid, c1) \<in> set (rmatch ic a (s, c0))" and e: "(rest, cap) \<in> set (rmatch ic b (mid, c1))"
    by auto
  from Seq.IH(1) [OF m] obtain pre1 where
    p1: "s = pre1 @ mid" "lang ic a pre1" and c1: "c1 = c0 \<or> (\<exists>g. c1 = Some g \<and> caps ic a g)"
    by blast
  from Seq.IH(2) [OF e] obtain pre2 where
    p2: "mid = pre2 @ rest" "lang ic b pre2" and c2: "cap = c1 \<or> (\<exists>g. cap = Some g \<and> caps ic b g)"
    by blast
  have "s = (pre1 @ pre2) @ rest \<and> lang ic (Seq a b) (pre1 @ pre2)"
    using p1 p2 by auto
  moreover have "cap = c0 \<or> (\<exists>g. cap = Some g \<and> caps ic (Seq a b) g)"
    using c1 c2 by auto
  ultimately show ?case by blast
next
  case (Alt a b)
  from Alt.prems have "(rest, cap) \<in> set (rmatch ic a (s, c0)) \<or> (rest, cap) \<in> set (rmatch ic b (s, c0))"
    by auto
  then show ?case
  proof
    assume "(rest, cap) \<in> set (rmatch ic a (s, c0))"
    from Alt.IH(1) [OF this] show ?thesis by auto
  next
    assume "(rest, cap) \<in> set (rmatch ic b (s, c0))"
    from Alt.IH(2) [OF this] show ?thesis by auto
  qed
next
  case (Grp r)
  from Grp.prems obtain c' where
    m: "(rest, c') \<in> set (rmatch ic r (s, c0))" and
    c: "cap = Some (take (length s - length rest) s)"
    by auto
  from Grp.IH [OF m] obtain pre where p: "s = pre @ rest" "lang ic r pre" by blast
  then have "take (length s - length rest) s = pre" by simp
  then show ?case using p c by auto
qed

lemma findall_first_sound:
  "findall_first ic r t = Some g \<Longrightarrow> g = [] \<or> caps ic r g"
proof (induction t)
  case Nil
  then obtain rest cap where h: "(rest, cap) \<in> set (rmatch ic r ([], None))"
    and g: "g = (case cap of None \<Rightarrow> [] | Some x \<Rightarrow> x)"
    by (auto split: list.splits)
  from rmatch_sound [OF h] g show ?case by auto
next
  case (Cons c cs)
  show ?case
  proof (cases "rmatch ic r (c # cs, None)")
    case Nil
    with Cons show ?thesis by simp
  next
    case (Cons st sts)
    obtain rest cap where st: "st = (rest, cap)" by (cases st)
    have h: "(rest, cap) \<in> set (rmatch ic r (c # cs, None))" using Cons st by simp
    have g: "g = (case cap of None \<Rightarrow> [] | Some x \<Rightarrow> x)"
      using Cons.prems Cons st by simp
    from rmatch_sound [OF h] g show ?thesis by auto
  qed
qed


lemma char_eq_nonletter:
  assumes "char_eq ic c p" and "\<not> is_lower p" and "\<not> is_upper p"
  shows "c = p"
proof (cases ic)
  case True
  then have "lower_char c = lower_char p" using assms(1) by (simp add: char_eq_def)
  then have "lower_char c = p" using lower_char_not_upper [OF assms(3)] by simp
  then show ?thesis using lower_char_eq_nonletter assms(2) by blast
next
  case False
  then show ?thesis using assms(1) by (simp add: char_eq_def)
qed

lemma lit_rest_nonletter:
  "lit_rest ic p u = Some [] \<Longrightarrow> list_all (\<lambda>c. \<not> is_lower c \<and> \<not> is_upper c) p \<Longrightarrow> u = p"
proof (induction ic p u rule: lit_rest.induct)
  case (1 ic s)
  then show ?case by simp
next
  case (2 ic p ps)
  then show ?case by simp
next
  case (3 ic p ps c cs)
  show ?case
  proof (cases "char_eq ic c p")
    case True
    then have "c = p" using char_eq_nonletter "3.prems"(2) by simp
    moreover have "cs = ps" using True "3.IH" "3.prems" by simp
    ultimately show ?thesis by simp
  next
    case False
    then show ?thesis using "3.prems" by simp
  qed
qed

lemma lang_d2: "lang ic d2 v \<Longrightarrow> \<exists>a b. v = [a, b] \<and> is_digit a \<and> is_digit b"
  by (auto simp add: d2_def)

lemma lang_lit_d2:
  assumes "lang ic (Seq (Lit p) d2) g" and "list_all (\<lambda>c. \<not> is_lower c \<and> \<not> is_upper c) p"
  shows "\<exists>a b. g = p @ [a, b] \<and> is_digit a \<and> is_digit b"
proof -
  from assms(1) obtain u v where g: "g = u @ v" and u: "lit_rest ic p u = Some []"
    and v: "lang ic d2 v" by auto
  have "u = p" using lit_rest_nonletter [OF u assms(2)] .
  then show ?thesis using g lang_d2 [OF v] by auto
qed

lemma nonletters:
  "list_all (\<lambda>c. \<not> is_lower c \<and> \<not> is_upper c) ''19''"
  "list_all (\<lambda>c. \<not> is_lower c \<and> \<not> is_upper c) ''20''"
  "list_all (\<lambda>c. \<not> is_lower c \<and> \<not> is_upper c) [CHR 0x27]"
  by (simp_all add: is_lower_def is_upper_def)

lemma lang_year4: "lang ic year4 g \<Longrightarrow> year_shape g"
proof -
  assume "lang ic year4 g"
  then have "lang ic (Seq (Lit ''19'') d2) g \<or> lang ic (Seq (Lit ''20'') d2) g"
    by (simp only: year4_def lang.simps)
  then show ?thesis
  proof
    assume "lang ic (Seq (Lit ''19'') d2) g"
    from lang_lit_d2 [OF this nonletters(1)] show ?thesis
      unfolding year_shape_def by blast
  next
    assume "lang ic (Seq (Lit ''20'') d2) g"
    from lang_lit_d2 [OF this nonletters(2)] show ?thesis
      unfolding year_shape_def by blast
  qed
qed

lemma lang_year4_or_2: "lang ic year4_or_2 g \<Longrightarrow> year_shape g"
proof -
  assume "lang ic year4_or_2 g"
  then have "lang ic (Seq (Lit ''19'') d2) g \<or> lang ic (Seq (Lit ''20'') d2) g
      \<or> lang ic (Seq (Lit [CHR 0x27]) d2) g"
    by (simp only: year4_or_2_def lang.simps)
  then show ?thesis
  proof (elim disjE)
    assume "lang ic (Seq (Lit ''19'') d2) g"
    from lang_lit_d2 [OF this nonletters(1)] show ?thesis
      unfolding year_shape_def by blast
  next
    assume "lang ic (Seq (Lit ''20'') d2) g"
    from lang_lit_d2 [OF this nonletters(2)] show ?thesis
      unfolding year_shape_def by blast
  next
    assume "lang ic (Seq (Lit [CHR 0x27]) d2) g"
    from lang_lit_d2 [OF this nonletters(3)] obtain a b where
      "g = [CHR 0x27, a, b]" "is_digit a" "is_digit b" by auto
    then show ?thesis unfolding year_shape_def by blast
  qed
qed

lemma caps_alts: "\<not> caps ic (alts ws) g"
  by (induction ws rule: alts.induct) simp_all

lemma caps_year_pattern_1:
  "caps ic (seqs [founding_words, ws1, Lit ''i'', Opt (Lit ''n''), ws1, Grp year4_or_2]) g
     = lang ic year4_or_2 g"
  by (simp add: founding_words_def ws1_def caps_alts)

lemma caps_year_pattern_2:
  "caps ic (seqs [founding_words, ws1, Grp year4_or_2]) g = lang ic year4_or_2 g"
  by (simp add: founding_words_def ws1_def caps_alts)

lemma caps_year_pattern_3:
  "caps ic (seqs [Grp year4, ws1, founding_words]) g = lang ic year4 g"
  by (simp add: founding_words_def ws1_def caps_alts)

lemma caps_year_pattern_4:
  "caps ic (seqs [alts [''since'', ''from''], ws1, Grp year4]) g = lang ic year4 g"
  by (simp add: ws1_def)

lemma caps_year_patterns:
  assumes "p \<in> set year_patterns" and "caps ic p g"
  shows "year_shape g"
proof -
  from assms(1) have
    "p = seqs [founding_words, ws1, Lit ''i'', Opt (Lit ''n''), ws1, Grp year4_or_2]
     \<or> p = seqs [founding_words, ws1, Grp year4_or_2]
     \<or> p = seqs [Grp year4, ws1, founding_words]
     \<or> p = seqs [alts [''since'', ''from''], ws1, Grp year4]"
    by (simp only: year_patterns_def list.set insert_iff empty_iff simp_thms)
  then show ?thesis
    using assms(2) caps_year_pattern_1 [of ic g] caps_year_pattern_2 [of ic g]
      caps_year_pattern_3 [of ic g] caps_year_pattern_4 [of ic g]
      lang_year4 [of ic g] lang_year4_or_2 [of ic g]
    by blast
qed

lemma expand_year_shape:
  assumes "g = [] \<or> year_shape g"
  shows "\<exists>ys. expand_year g = Inr ys"
proof -
  from assms consider "g = []" | a b where "g = ''19'' @ [a, b]"
    | a b where "g = ''20'' @ [a, b]" | a b where "g = [CHR 0x27, a, b]"
    unfolding year_shape_def by blast
  then show ?thesis
    by cases (simp_all add: expand_year_def)
qed

lemma year_loop_total:
  "set ps \<subseteq> set year_patterns \<Longrightarrow>
     year_loop ps t = Inr None \<or> (\<exists>y. year_loop ps t = Inr (Some y) \<and> 1900 \<le> y \<and> y \<le> 2030)"
proof (induction ps)
  case Nil
  then show ?case by simp
next
  case (Cons p ps)
  then have ih: "year_loop ps t = Inr None
      \<or> (\<exists>y. year_loop ps t = Inr (Some y) \<and> 1900 \<le> y \<and> y \<le> 2030)" by simp
  show ?case
  proof (cases "findall_first True p t")
    case None
    then show ?thesis using ih by simp
  next
    case (Some g)
    have "g = [] \<or> caps True p g" using findall_first_sound [OF Some] .
    then have "g = [] \<or> year_shape g" using caps_year_patterns [of p True g] Cons.prems by auto
    then obtain ys where ys: "expand_year g = Inr ys" using expand_year_shape by blast
    show ?thesis
    proof (cases "py_int ys")
      case (Inl e)
      then show ?thesis using Some ys ih by simp
    next
      case (Inr year)
      then show ?thesis using Some ys ih by auto
    qed
  qed
qed

lemma extract_founded_year_range:
  "extract_founded_year t = Inr None
   \<or> (\<exists>y. extract_founded_year t = Inr (Some y) \<and> 1900 \<le> y \<and> y \<le> 2030)"
  unfolding extract_founded_year_def using year_loop_total [of year_patterns t] by simp

section \<open>Properties of the enricher\<close>

subsection \<open>Founded year\<close>

lemma two_digit_0:
  assumes "b \<in> set ''0123456789''"
  shows "extract_founded_year (''founded in '' @ [CHR 0x27, CHR ''0'', b])
         = Inr (Some (2000 + int (digit_value b)))"
  using assms
  by (simp only: list.set insert_iff empty_iff simp_thms) (elim disjE; hypsubst; code_simp)

lemma two_digit_1:
  assumes "b \<in> set ''0123456789''"
  shows "extract_founded_year (''founded in '' @ [CHR 0x27, CHR ''1'', b])
         = Inr (Some (2010 + int (digit_value b)))"
  using assms
  by (simp only: list.set insert_iff empty_iff simp_thms) (elim disjE; hypsubst; code_simp)

lemma two_digit_2:
  assumes "b \<in> set ''0123456789''"
  shows "extract_founded_year (''founded in '' @ [CHR 0x27, CHR ''2'', b])
         = Inr (Some (2020 + int (digit_value b)))"
  using assms
  by (simp only: list.set insert_iff empty_iff simp_thms) (elim disjE; hypsubst; code_simp)

lemma two_digit_3:
  assumes "b \<in> set ''0123456789''"
  shows "extract_founded_year (''founded in '' @ [CHR 0x27, CHR ''3'', b])
         = (if b = CHR ''0'' then Inr (Some 2030) else Inr None)"
  using assms
  by (simp only: list.set insert_iff empty_iff simp_thms) (elim disjE; hypsubst; code_simp)

lemma two_digit_4:
  assumes "b \<in> set ''0123456789''"
  shows "extract_founded_year (''founded in '' @ [CHR 0x27, CHR ''4'', b]) = Inr None"
  using assms
  by (simp only: list.set insert_iff empty_iff simp_thms) (elim disjE; hypsubst; code_simp)

lemma digit_values:
  "digit_value (CHR ''0'') = 0" "digit_value (CHR ''1'') = 1" "digit_value (CHR ''2'') = 2"
  "digit_value (CHR ''3'') = 3" "digit_value (CHR ''4'') = 4" "digit_value (CHR ''5'') = 5"
  "digit_value (CHR ''6'') = 6" "digit_value (CHR ''7'') = 7" "digit_value (CHR ''8'') = 8"
  "digit_value (CHR ''9'') = 9"
  by (simp_all add: digit_value_def)

lemma digit_value_le: "b \<in> set ''0123456789'' \<Longrightarrow> digit_value b \<le> 9"
  by (auto simp add: digit_values)

lemma digit_value_zero: "b \<in> set ''0123456789'' \<Longrightarrow> (digit_value b = 0) = (b = CHR ''0'')"
  by (auto simp add: digit_values)

lemma two_digit_years:
  assumes "a \<in> set ''01234''" and "b \<in> set ''0123456789''"
  shows "extract_founded_year (''founded in '' @ [CHR 0x27, a, b])
         = (if 10 * digit_value a + digit_value b \<le> 30
            then Inr (Some (2000 + int (10 * digit_value a + digit_value b)))
            else Inr None)"
proof -
  from assms(1) consider "a = CHR ''0''" | "a = CHR ''1''" | "a = CHR ''2''" | "a = CHR ''3''"
    | "a = CHR ''4''" by auto
  then show ?thesis
  proof cases
    case 1
    then show ?thesis
      using two_digit_0 [OF assms(2)] digit_value_le [OF assms(2)] by (simp add: digit_values)
  next
    case 2
    then show ?thesis
      using two_digit_1 [OF assms(2)] digit_value_le [OF assms(2)] by (simp add: digit_values)
  next
    case 3
    then show ?thesis
      using two_digit_2 [OF assms(2)] digit_value_le [OF assms(2)] by (simp add: digit_values)
  next
    case 4
    then show ?thesis
      using two_digit_3 [OF assms(2)] digit_value_zero [OF assms(2)]
      by (simp add: digit_values)
  next
    case 5
    then show ?thesis
      using two_digit_4 [OF assms(2)] by (simp add: digit_values)
  qed
qed

text \<open>
  A two-digit year in general: where the first pattern finds its first match, and what
  one turn of the loop does with a captured \<open>'NN\<close>.
\<close>

lemma founding_words_alts: "founding_words = alts founding_list"
  by (simp add: founding_words_def founding_list_def)

lemma rmatch_alts_none:
  "(\<forall>w \<in> set ws. lit_rest ic w u = None) \<Longrightarrow> rmatch ic (alts ws) (u, cap) = []"
  by (induction ws rule: alts.induct) (simp_all split: list.splits)

lemma first_pattern_needs_keyword:
  assumes "\<not> keyword_at u"
  shows "rmatch True (year_patterns ! 0) (u, None) = []"
proof -
  have "rmatch True founding_words (u, None) = []"
    unfolding founding_words_alts using assms
    by (intro rmatch_alts_none) (simp add: keyword_at_def)
  then show ?thesis
    by (simp add: year_patterns_def)
qed

lemma findall_first_skip:
  assumes "\<And>u. \<not> keyword_at u \<Longrightarrow> rmatch ic r (u, None) = []"
      and "no_keyword_before pre s"
  shows "findall_first ic r (pre @ s) = findall_first ic r s"
  using assms(2)
proof (induction pre)
  case Nil
  then show ?case by simp
next
  case (Cons c pre)
  then have "rmatch ic r (c # pre @ s, None) = []" using assms(1) by simp
  then show ?case using Cons by simp
qed

lemma is_digit_low: "a \<in> set ''01234'' \<Longrightarrow> is_digit a"
  by (simp add: is_digit_def) blast

lemma is_digit_set: "b \<in> set ''0123456789'' \<Longrightarrow> is_digit b"
  by (simp add: is_digit_def)

lemma capture_founded:
  assumes "is_digit a" and "is_digit b"
  shows "findall_first True (year_patterns ! 0) (''founded'' @ '' in '' @ [CHR 0x27, a, b] @ rest)
           = Some [CHR 0x27, a, b]"
  using assms
  by (simp add: year_patterns_def founding_words_def ws1_def year4_or_2_def d2_def
      char_eq_def lower_char_def is_space_def)

lemma capture_established:
  assumes "is_digit a" and "is_digit b"
  shows "findall_first True (year_patterns ! 0) (''established'' @ '' in '' @ [CHR 0x27, a, b] @ rest)
           = Some [CHR 0x27, a, b]"
  using assms
  by (simp add: year_patterns_def founding_words_def ws1_def year4_or_2_def d2_def
      char_eq_def lower_char_def is_space_def)

lemma capture_started:
  assumes "is_digit a" and "is_digit b"
  shows "findall_first True (year_patterns ! 0) (''started'' @ '' in '' @ [CHR 0x27, a, b] @ rest)
           = Some [CHR 0x27, a, b]"
  using assms
  by (simp add: year_patterns_def founding_words_def ws1_def year4_or_2_def d2_def
      char_eq_def lower_char_def is_space_def)

lemma capture_launched:
  assumes "is_digit a" and "is_digit b"
  shows "findall_first True (year_patterns ! 0) (''launched'' @ '' in '' @ [CHR 0x27, a, b] @ rest)
           = Some [CHR 0x27, a, b]"
  using assms
  by (simp add: year_patterns_def founding_words_def ws1_def year4_or_2_def d2_def
      char_eq_def lower_char_def is_space_def)

lemma capture_incorporated:
  assumes "is_digit a" and "is_digit b"
  shows "findall_first True (year_patterns ! 0) (''incorporated'' @ '' in '' @ [CHR 0x27, a, b] @ rest)
           = Some [CHR 0x27, a, b]"
  using assms
  by (simp add: year_patterns_def founding_words_def ws1_def year4_or_2_def d2_def
      char_eq_def lower_char_def is_space_def)

lemma first_pattern_capture:
  assumes "kw \<in> set founding_list" and "is_digit a" and "is_digit b"
  shows "findall_first True (year_patterns ! 0) (kw @ '' in '' @ [CHR 0x27, a, b] @ rest)
           = Some [CHR 0x27, a, b]"
proof -
  have "kw = ''founded'' \<or> kw = ''established'' \<or> kw = ''started'' \<or> kw = ''launched''
          \<or> kw = ''incorporated''"
    using assms(1) unfolding founding_list_def
    by (simp only: list.set insert_iff empty_iff simp_thms)
  then show ?thesis
  proof (elim disjE)
    assume "kw = ''founded''"
    then show ?thesis by (simp only: capture_founded [OF assms(2,3)])
  next
    assume "kw = ''established''"
    then show ?thesis by (simp only: capture_established [OF assms(2,3)])
  next
    assume "kw = ''started''"
    then show ?thesis by (simp only: capture_started [OF assms(2,3)])
  next
    assume "kw = ''launched''"
    then show ?thesis by (simp only: capture_launched [OF assms(2,3)])
  next
    assume "kw = ''incorporated''"
    then show ?thesis by (simp only: capture_incorporated [OF assms(2,3)])
  qed
qed

lemma py_int_20:
  assumes "is_digit a" and "is_digit b"
  shows "py_int [CHR ''2'', CHR ''0'', a, b]
           = Inr (2000 + int (10 * digit_value a + digit_value b))"
proof -
  have "is_digit CHR ''2''" and "is_digit CHR ''0''"
    by (simp_all add: is_digit_def)
  then show ?thesis
    using assms by (simp add: py_int_def digit_values)
qed

lemma two_digit_step:
  assumes "findall_first True p t = Some [CHR 0x27, a, b]" and "is_digit a" and "is_digit b"
  shows "year_loop (p # ps) t =
           (if 10 * digit_value a + digit_value b \<le> 30
            then Inr (Some (2000 + int (10 * digit_value a + digit_value b)))
            else year_loop ps t)"
proof -
  have e: "expand_year [CHR 0x27, a, b] = Inr [CHR ''2'', CHR ''0'', a, b]"
    by (simp add: expand_year_def)
  have l: "year_loop (p # ps) t =
             (if 1900 \<le> 2000 + int (10 * digit_value a + digit_value b)
                 \<and> 2000 + int (10 * digit_value a + digit_value b) \<le> 2030
              then Inr (Some (2000 + int (10 * digit_value a + digit_value b)))
              else year_loop ps t)"
    unfolding year_loop.simps assms(1) by (simp only: e py_int_20 [OF assms(2,3)] option.case sum.case)
  show ?thesis unfolding l by simp
qed

lemma year_patterns_split: "year_patterns = (year_patterns ! 0) # tl year_patterns"
  by (simp add: year_patterns_def)

lemma two_digit_after_first_keyword:
  assumes "no_keyword_before pre (kw @ '' in '' @ [CHR 0x27, a, b] @ rest)"
      and "kw \<in> set founding_list" and "is_digit a" and "is_digit b"
  shows "extract_founded_year (pre @ kw @ '' in '' @ [CHR 0x27, a, b] @ rest) =
           (if 10 * digit_value a + digit_value b \<le> 30
            then Inr (Some (2000 + int (10 * digit_value a + digit_value b)))
            else year_loop (tl year_patterns) (pre @ kw @ '' in '' @ [CHR 0x27, a, b] @ rest))"
proof -
  have "findall_first True (year_patterns ! 0) (pre @ kw @ '' in '' @ [CHR 0x27, a, b] @ rest)
          = findall_first True (year_patterns ! 0) (kw @ '' in '' @ [CHR 0x27, a, b] @ rest)"
    using first_pattern_needs_keyword assms(1) by (rule findall_first_skip)
  then have f: "findall_first True (year_patterns ! 0)
                  (pre @ kw @ '' in '' @ [CHR 0x27, a, b] @ rest) = Some [CHR 0x27, a, b]"
    using first_pattern_capture [OF assms(2-4)] by simp
  have "extract_founded_year (pre @ kw @ '' in '' @ [CHR 0x27, a, b] @ rest) =
          year_loop ((year_patterns ! 0) # tl year_patterns)
            (pre @ kw @ '' in '' @ [CHR 0x27, a, b] @ rest)"
    unfolding extract_founded_year_def using year_patterns_split by simp
  then show ?thesis
    using two_digit_step [OF f assms(3,4)] by simp
qed

lemma capture_never_two:
  assumes "p \<in> set year_patterns" and "findall_first True p t = Some g"
  shows "length g \<noteq> 2"
proof -
  have "g = [] \<or> caps True p g" using findall_first_sound [OF assms(2)] .
  then have "g = [] \<or> year_shape g" using caps_year_patterns [OF assms(1)] by auto
  then show ?thesis by (auto simp add: year_shape_def)
qed

lemma high_two_digit_step:
  assumes "findall_first True p t = Some [CHR 0x27, a, b]" and "a \<in> set ''56789''"
      and "is_digit b"
  shows "year_loop (p # ps) t = year_loop ps t"
proof -
  have d: "is_digit a" using assms(2) by (auto simp add: is_digit_def)
  have "50 \<le> 10 * digit_value a + digit_value b"
    using assms(2) by (auto simp add: digit_values)
  then show ?thesis using two_digit_step [OF assms(1) d assms(3)] by simp
qed

text \<open>
  C4, as stated, fails: after a founding keyword, \<open>'49\<close> does not yield 2049 and \<open>'50\<close>
  does not yield 1950; both yield no year. The first is the guard of the code
  (\<open>1900 <= year <= 2030\<close>). The second is a slip of the code: \<open>'50\<close> and \<open>'75\<close> are
  expanded to 2050 and 2075, not to 1950 and 1975, and then rejected by the guard.
\<close>

theorem founded_year_counterexample:
  "extract_founded_year (''founded in '' @ [CHR 0x27] @ ''49'') = Inr None
   \<and> extract_founded_year (''founded in '' @ [CHR 0x27] @ ''49'') \<noteq> Inr (Some 2049)
   \<and> extract_founded_year (''founded in '' @ [CHR 0x27] @ ''50'') = Inr None
   \<and> extract_founded_year (''founded in '' @ [CHR 0x27] @ ''50'') \<noteq> Inr (Some 1950)
   \<and> expand_year ([CHR 0x27] @ ''50'') = Inr ''2050''
   \<and> extract_founded_year (''established '' @ [CHR 0x27] @ ''75'') = Inr None
   \<and> expand_year ([CHR 0x27] @ ''75'') = Inr ''2075''"
proof -
  have a: "extract_founded_year (''founded in '' @ [CHR 0x27] @ ''49'') = Inr None"
    by code_simp
  have b: "extract_founded_year (''founded in '' @ [CHR 0x27] @ ''50'') = Inr None"
    by code_simp
  have c: "extract_founded_year (''established '' @ [CHR 0x27] @ ''75'') = Inr None"
    by code_simp
  have d: "expand_year ([CHR 0x27] @ ''50'') = Inr ''2050''"
    by (simp add: expand_year_def)
  have e: "expand_year ([CHR 0x27] @ ''75'') = Inr ''2075''"
    by (simp add: expand_year_def)
  show ?thesis unfolding a b c d e by simp
qed

text \<open>
  The slip behind the second failure. The code means to read \<open>'NN\<close> as 19NN from 50 on:
  its branch \<open>elif len(year_str) == 2\<close> holds the pivot. But what a pattern captures is
  never two characters long (it is 19dd, 20dd or \<open>'dd\<close>, the apostrophe included), so
  that branch is never taken: every \<open>'NN\<close> gets the prefix 20, and from 50 on the
  candidate 20NN is rejected by the guard and the loop goes on to the next pattern.
\<close>

lemma pivot_branch_unreachable:
  "(p \<in> set year_patterns \<and> findall_first True p s = Some g \<longrightarrow> length g \<noteq> 2)
   \<and> (findall_first True p s = Some [CHR 0x27, a, b] \<and> a \<in> set ''56789''
        \<and> b \<in> set ''0123456789''
       \<longrightarrow> expand_year [CHR 0x27, a, b] = Inr (''20'' @ [a, b])
           \<and> year_loop (p # ps) s = year_loop ps s)"
proof (intro conjI impI)
  assume "p \<in> set year_patterns \<and> findall_first True p s = Some g"
  then show "length g \<noteq> 2" using capture_never_two by blast
next
  show "expand_year [CHR 0x27, a, b] = Inr (''20'' @ [a, b])"
    by (simp add: expand_year_def)
next
  assume h: "findall_first True p s = Some [CHR 0x27, a, b] \<and> a \<in> set ''56789''
        \<and> b \<in> set ''0123456789''"
  then have "is_digit b" using is_digit_set by blast
  with h show "year_loop (p # ps) s = year_loop ps s"
    using high_two_digit_step by blast
qed

text \<open>
  C4, amended. For every input \<open>_extract_founded_year\<close> returns (it raises nothing)
  either no year or a year in [1900, 2030]. The text "founded in 'NN" with NN below 50
  yields 20NN when 20NN is at most 2030 and no year otherwise (so \<open>'49\<close> yields none).
  For every text and every pattern of the loop: when the first match of the pattern
  captures a two-digit year \<open>'NN\<close> with NN below 50, the candidate is 20NN; it is
  returned when it is at most 2030, and otherwise the loop goes on to the patterns
  that follow. So, for every text in which the first founding keyword is followed by
  " in 'NN" with NN below 50, whatever stands before and after: the result is 20NN when
  NN is at most 30, and otherwise what the three remaining patterns find in the text.
\<close>

theorem founded_year_amended:
  "(extract_founded_year t = Inr None
     \<or> (\<exists>y. extract_founded_year t = Inr (Some y) \<and> 1900 \<le> y \<and> y \<le> 2030))
   \<and> (a \<in> set ''01234'' \<and> b \<in> set ''0123456789'' \<longrightarrow>
        extract_founded_year (''founded in '' @ [CHR 0x27, a, b])
          = (if 10 * digit_value a + digit_value b \<le> 30
             then Inr (Some (2000 + int (10 * digit_value a + digit_value b)))
             else Inr None))
   \<and> (findall_first True p s = Some [CHR 0x27, a, b]
        \<and> a \<in> set ''01234'' \<and> b \<in> set ''0123456789'' \<longrightarrow>
        year_loop (p # ps) s
          = (if 10 * digit_value a + digit_value b \<le> 30
             then Inr (Some (2000 + int (10 * digit_value a + digit_value b)))
             else year_loop ps s))
   \<and> (no_keyword_before pre (kw @ '' in '' @ [CHR 0x27, a, b] @ rest)
        \<and> kw \<in> set founding_list
        \<and> a \<in> set ''01234'' \<and> b \<in> set ''0123456789'' \<longrightarrow>
        extract_founded_year (pre @ kw @ '' in '' @ [CHR 0x27, a, b] @ rest)
          = (if 10 * digit_value a + digit_value b \<le> 30
             then Inr (Some (2000 + int (10 * digit_value a + digit_value b)))
             else year_loop (tl year_patterns)
                    (pre @ kw @ '' in '' @ [CHR 0x27, a, b] @ rest)))"
proof (intro conjI impI)
  show "extract_founded_year t = Inr None
     \<or> (\<exists>y. extract_founded_year t = Inr (Some y) \<and> 1900 \<le> y \<and> y \<le> 2030)"
    using extract_founded_year_range [of t] .
next
  assume "a \<in> set ''01234'' \<and> b \<in> set ''0123456789''"
  then show "extract_founded_year (''founded in '' @ [CHR 0x27, a, b])
          = (if 10 * digit_value a + digit_value b \<le> 30
             then Inr (Some (2000 + int (10 * digit_value a + digit_value b)))
             else Inr None)"
    using two_digit_years [of a b] by blast
next
  assume h: "findall_first True p s = Some [CHR 0x27, a, b]
        \<and> a \<in> set ''01234'' \<and> b \<in> set ''0123456789''"
  then have d: "is_digit a" "is_digit b" using is_digit_low is_digit_set by blast+
  from h have "findall_first True p s = Some [CHR 0x27, a, b]" by blast
  then show "year_loop (p # ps) s
          = (if 10 * digit_value a + digit_value b \<le> 30
             then Inr (Some (2000 + int (10 * digit_value a + digit_value b)))
             else year_loop ps s)"
    using d by (rule two_digit_step)
next
  assume h: "no_keyword_before pre (kw @ '' in '' @ [CHR 0x27, a, b] @ rest)
        \<and> kw \<in> set founding_list
        \<and> a \<in> set ''01234'' \<and> b \<in> set ''0123456789''"
  then have d: "is_digit a" "is_digit b" using is_digit_low is_digit_set by blast+
  from h have n: "no_keyword_before pre (kw @ '' in '' @ [CHR 0x27, a, b] @ rest)"
    and k: "kw \<in> set founding_list" by blast+
  show "extract_founded_year (pre @ kw @ '' in '' @ [CHR 0x27, a, b] @ rest)
          = (if 10 * digit_value a + digit_value b \<le> 30
             then Inr (Some (2000 + int (10 * digit_value a + digit_value b)))
             else year_loop (tl year_patterns)
                    (pre @ kw @ '' in '' @ [CHR 0x27, a, b] @ rest))"
    using n k d by (rule two_digit_after_first_keyword)
qed

theorem founded_year_amended_witness:
  "extract_founded_year (''founded in '' @ [CHR 0x27, CHR ''0'', CHR ''5'']) = Inr (Some 2005)
   \<and> extract_founded_year (''founded in '' @ [CHR 0x27, CHR ''3'', CHR ''1'']) = Inr None
   \<and> extract_founded_year (''Established '' @ [CHR 0x27, CHR ''0'', CHR ''5''])
       = Inr (Some 2005)
   \<and> extract_founded_year
        (''Acme was '' @ ''established'' @ '' in '' @ [CHR 0x27, CHR ''0'', CHR ''5'']
           @ '' in Berlin'') = Inr (Some 2005)
   \<and> extract_founded_year
        ([] @ ''founded'' @ '' in '' @ [CHR 0x27, CHR ''4'', CHR ''5'']
           @ '' and established 1999'') = Inr (Some 1999)"
proof -
  have d05: "CHR ''0'' \<in> set ''01234'' \<and> CHR ''5'' \<in> set ''0123456789''" by simp
  have d31: "CHR ''3'' \<in> set ''01234'' \<and> CHR ''1'' \<in> set ''0123456789''" by simp
  have d45: "CHR ''4'' \<in> set ''01234'' \<and> CHR ''5'' \<in> set ''0123456789''" by simp
  have v05: "10 * digit_value CHR ''0'' + digit_value CHR ''5'' = 5"
    and v31: "10 * digit_value CHR ''3'' + digit_value CHR ''1'' = 31"
    and v45: "10 * digit_value CHR ''4'' + digit_value CHR ''5'' = 45"
    by (simp_all add: digit_values)
  have kw: "''established'' \<in> set founding_list" "''founded'' \<in> set founding_list"
    by (simp_all add: founding_list_def)
  have nk: "no_keyword_before ''Acme was ''
              (''established'' @ '' in '' @ [CHR 0x27, CHR ''0'', CHR ''5''] @ '' in Berlin'')"
    by (simp add: keyword_at_def founding_list_def char_eq_def lower_char_def)
  have n0: "no_keyword_before []
              (''founded'' @ '' in '' @ [CHR 0x27, CHR ''4'', CHR ''5'']
                 @ '' and established 1999'')"
    by simp
  have f0: "findall_first True (year_patterns ! 0)
              (''Established '' @ [CHR 0x27, CHR ''0'', CHR ''5'']) = None"
    by code_simp
  have f1: "findall_first True (year_patterns ! 1)
              (''Established '' @ [CHR 0x27, CHR ''0'', CHR ''5''])
              = Some [CHR 0x27, CHR ''0'', CHR ''5'']"
    by code_simp
  have sp: "year_patterns = (year_patterns ! 0) # (year_patterns ! 1) # drop 2 year_patterns"
    by (simp add: year_patterns_def)
  have r: "year_loop (tl year_patterns)
             ([] @ ''founded'' @ '' in '' @ [CHR 0x27, CHR ''4'', CHR ''5'']
                @ '' and established 1999'') = Inr (Some 1999)"
    by code_simp
  note i1 = founded_year_amended [where t = "[]" and a = "CHR ''0''" and b = "CHR ''5''"
      and p = "year_patterns ! 1" and ps = "drop 2 year_patterns"
      and s = "''Established '' @ [CHR 0x27, CHR ''0'', CHR ''5'']"
      and pre = "''Acme was ''" and kw = "''established''" and rest = "'' in Berlin''"]
  note i2 = founded_year_amended [where t = "[]" and a = "CHR ''3''" and b = "CHR ''1''"
      and p = "year_patterns ! 1" and ps = "[]" and s = "[]"
      and pre = "[]" and kw = "[]" and rest = "[]"]
  note i3 = founded_year_amended [where t = "[]" and a = "CHR ''4''" and b = "CHR ''5''"
      and p = "year_patterns ! 1" and ps = "[]" and s = "[]"
      and pre = "[]" and kw = "''founded''" and rest = "'' and established 1999''"]
  have w1: "extract_founded_year (''founded in '' @ [CHR 0x27, CHR ''0'', CHR ''5''])
              = Inr (Some 2005)"
    using i1 [THEN conjunct2, THEN conjunct1] d05 unfolding v05 by simp
  have w2: "extract_founded_year (''founded in '' @ [CHR 0x27, CHR ''3'', CHR ''1''])
              = Inr None"
    using i2 [THEN conjunct2, THEN conjunct1] d31 unfolding v31 by simp
  have s3: "year_loop ((year_patterns ! 1) # drop 2 year_patterns)
              (''Established '' @ [CHR 0x27, CHR ''0'', CHR ''5'']) = Inr (Some 2005)"
    using i1 [THEN conjunct2, THEN conjunct2, THEN conjunct1] f1 d05 unfolding v05 by simp
  have "extract_founded_year (''Established '' @ [CHR 0x27, CHR ''0'', CHR ''5''])
          = year_loop ((year_patterns ! 0) # (year_patterns ! 1) # drop 2 year_patterns)
              (''Established '' @ [CHR 0x27, CHR ''0'', CHR ''5''])"
    unfolding extract_founded_year_def using sp by simp
  also have "\<dots> = year_loop ((year_patterns ! 1) # drop 2 year_patterns)
              (''Established '' @ [CHR 0x27, CHR ''0'', CHR ''5''])"
    unfolding year_loop.simps(2) [of "year_patterns ! 0"] f0 by simp
  finally have w3: "extract_founded_year (''Established '' @ [CHR 0x27, CHR ''0'', CHR ''5''])
          = Inr (Some 2005)"
    using s3 by simp
  have w4: "extract_founded_year
        (''Acme was '' @ ''established'' @ '' in '' @ [CHR 0x27, CHR ''0'', CHR ''5'']
           @ '' in Berlin'') = Inr (Some 2005)"
    using i1 [THEN conjunct2, THEN conjunct2, THEN conjunct2] nk kw(1) d05
    unfolding v05 by simp
  have w5: "extract_founded_year
        ([] @ ''founded'' @ '' in '' @ [CHR 0x27, CHR ''4'', CHR ''5'']
           @ '' and established 1999'') = Inr (Some 1999)"
    using i3 [THEN conjunct2, THEN conjunct2, THEN conjunct2] n0 kw(2) d45
    unfolding v45 r by simp
  show ?thesis using w1 w2 w3 w4 w5 by blast
qed

subsection \<open>The enrichment scenario\<close>

lemma scenario_industry: "infer_industry (lower scenario_text) = Some ''Software''"
  unfolding scenario_text_def by code_simp

lemma scenario_employees: "estimate_employees (lower scenario_text) = Inr None"
  unfolding scenario_text_def by code_simp

lemma scenario_contact: "extract_contact_person scenario_text = None"
  unfolding scenario_text_def by code_simp

lemma scenario_title: "extract_contact_title scenario_text = None"
  unfolding scenario_text_def by code_simp

lemma scenario_year: "extract_founded_year scenario_text = Inr (Some 2014)"
  unfolding scenario_text_def by code_simp

lemma scenario_text_for_analysis:
  assumes "\<not> truthy_str (company_name l)" and "\<not> truthy_str (about_text l)"
  shows "get_text_for_analysis py_str l [(''text_content'', PStr scenario_text)]
           = Inr scenario_text"
  using assms by (simp add: get_text_for_analysis_def has_key_def py_join_def Let_def)

lemma scenario_heuristic:
  assumes "\<not> truthy_str (company_name l)" and "\<not> truthy_str (about_text l)"
  shows "heuristic_enrichment py_str l [(''text_content'', PStr scenario_text)] =
     Some \<lparr>enr_success = True,
           enr_data = [(''industry'', PStr ''Software''), (''founded_year'', PInt 2014)],
           enr_method = HEURISTIC, enr_confidence = 0.45, enr_processing_time = 0\<rparr>"
  unfolding heuristic_enrichment_def scenario_text_for_analysis [OF assms]
  by (simp add: scenario_industry scenario_employees scenario_contact scenario_title
      scenario_year add_field_def Let_def)

lemma llm_without_credential:
  "\<not> truthy_str (api_key env) \<Longrightarrow> llm_enrichment py_str env l sd = None"
  by (simp add: llm_enrichment_def)

lemma scenario_enrich:
  assumes "\<not> truthy_str (company_name l)" and "\<not> truthy_str (about_text l)"
      and "\<not> truthy_str (api_key env)"
  shows "enrich_lead_data py_str env el l [(''text_content'', PStr scenario_text)]
           = (None, [HEURISTIC, EXTERNAL_API, LLM])"
  unfolding enrich_lead_data_def enrich_with_def scenario_heuristic [OF assms(1,2)]
    llm_without_credential [OF assms(3)]
  by (simp add: external_api_enrichment_def)

lemma bare_lead: "\<not> truthy_str (company_name (lead_at i t)) \<and> \<not> truthy_str (about_text (lead_at i t))"
  by (simp add: lead_at_eq)

text \<open>
  C3, as stated, fails: on the scenario text the heuristic finds no employee band (and
  so no revenue band), and its confidence is 0.45, not above 0.7.
\<close>

theorem scenario_counterexample:
  "heuristic_enrichment (\<lambda>v. []) (lead_at 1 0) [(''text_content'', PStr scenario_text)] =
     Some \<lparr>enr_success = True,
           enr_data = [(''industry'', PStr ''Software''), (''founded_year'', PInt 2014)],
           enr_method = HEURISTIC, enr_confidence = 0.45, enr_processing_time = 0\<rparr>
   \<and> estimate_employees (lower scenario_text) = Inr None
   \<and> \<not> (0.45 :: real) > 0.7"
  using scenario_heuristic [of "lead_at 1 0" "\<lambda>v. []"] bare_lead [of 1 0] scenario_employees
  by simp

text \<open>
  C3, amended. Given the scraped text "We are a 120-person SaaS platform founded in
  2014", on a lead without a company name and an about text, the heuristic strategy
  returns industry "Software" and founded_year 2014 and nothing else ("120-person"
  matches none of the employee patterns), with confidence 0.45; that is not above 0.7, so
  without an external API and an LLM credential \<open>enrich_lead_data\<close> returns null.
\<close>

theorem scenario_amended:
  "\<not> truthy_str (company_name l) \<and> \<not> truthy_str (about_text l) \<longrightarrow>
     heuristic_enrichment py_str l [(''text_content'', PStr scenario_text)] =
       Some \<lparr>enr_success = True,
             enr_data = [(''industry'', PStr ''Software''), (''founded_year'', PInt 2014)],
             enr_method = HEURISTIC, enr_confidence = 0.45, enr_processing_time = 0\<rparr>
     \<and> (\<not> truthy_str (api_key env) \<longrightarrow>
          enrich_lead_data py_str env el l [(''text_content'', PStr scenario_text)]
            = (None, [HEURISTIC, EXTERNAL_API, LLM]))"
  using scenario_heuristic [of l py_str] scenario_enrich [of l env py_str el] by blast

theorem scenario_amended_witness:
  "heuristic_enrichment (\<lambda>v. []) (lead_at 1 0) [(''text_content'', PStr scenario_text)] =
     Some \<lparr>enr_success = True,
           enr_data = [(''industry'', PStr ''Software''), (''founded_year'', PInt 2014)],
           enr_method = HEURISTIC, enr_confidence = 0.45, enr_processing_time = 0\<rparr>
   \<and> enrich_lead_data (\<lambda>v. []) no_llm 12 (lead_at 1 0)
       [(''text_content'', PStr scenario_text)] = (None, [HEURISTIC, EXTERNAL_API, LLM])"
proof -
  have k: "\<not> truthy_str (api_key no_llm)" by (simp add: no_llm_def)
  show ?thesis
    using scenario_amended [of "lead_at 1 0" "\<lambda>v. []" no_llm 12] bare_lead [of 1 0] k
    by blast
qed

subsection \<open>The waterfall and the confidence of its strategies\<close>


lemma add_field_nonneg: "0 \<le> w \<Longrightarrow> 0 \<le> snd st \<Longrightarrow> 0 \<le> snd (add_field k v w st)"
  by (simp add: add_field_def split: option.splits)

lemma heuristic_confidence_bounds:
  assumes "heuristic_enrichment py_str l sd = Some r"
  shows "0 \<le> enr_confidence r \<and> enr_confidence r \<le> 0.9"
proof -
  from assms obtain t where t: "get_text_for_analysis py_str l sd = Inr t"
    by (auto simp add: heuristic_enrichment_def split: sum.splits)
  from assms t obtain emp where emp: "estimate_employees (lower t) = Inr emp"
    by (auto simp add: heuristic_enrichment_def split: sum.splits)
  from assms t emp obtain fy where fy: "extract_founded_year t = Inr fy"
    by (auto simp add: heuristic_enrichment_def split: sum.splits)
  define st1 where "st1 = add_field ''industry'' (map_option PStr (infer_industry (lower t)))
                            0.3 ([], 0.0)"
  define st2 where "st2 = add_field ''employees'' (map_option PStr emp) 0.2 st1"
  define st3 where "st3 = (if truthy_str emp
                           then add_field ''revenue_band''
                                  (map_option PStr (estimate_revenue_from_employees (the emp)))
                                  0.1 st2
                           else st2)"
  define st4 where "st4 = add_field ''contact_name''
                            (map_option PStr (extract_contact_person t)) 0.15 st3"
  define st5 where "st5 = add_field ''contact_title''
                            (map_option PStr (extract_contact_title t)) 0.1 st4"
  define st6 where "st6 = add_field ''founded_year'' (map_option PInt fy) 0.15 st5"
  have r: "enr_confidence r = min (snd st6) 0.9"
    using assms t emp fy
    by (auto simp add: heuristic_enrichment_def Let_def st1_def st2_def st3_def st4_def
        st5_def st6_def split: if_splits)
  have "0 \<le> snd st1" unfolding st1_def by (rule add_field_nonneg) simp_all
  then have "0 \<le> snd st2" unfolding st2_def by (intro add_field_nonneg) simp_all
  then have "0 \<le> snd st3" unfolding st3_def by (simp add: add_field_nonneg)
  then have "0 \<le> snd st4" unfolding st4_def by (intro add_field_nonneg) simp_all
  then have "0 \<le> snd st5" unfolding st5_def by (intro add_field_nonneg) simp_all
  then have "0 \<le> snd st6" unfolding st6_def by (intro add_field_nonneg) simp_all
  then show ?thesis using r by simp
qed

lemma llm_confidence_bounds:
  assumes "llm_enrichment py_str env l sd = Some r"
  shows "0 \<le> enr_confidence r \<and> enr_confidence r \<le> 0.8 \<and> enr_method r = LLM"
proof -
  have "\<exists>n::nat. r = \<lparr>enr_success = True, enr_data = enr_data r, enr_method = LLM,
                       enr_confidence = min (0.5 + real n * 0.1) 0.8,
                       enr_processing_time = 0\<rparr>"
    using assms
    by (auto simp add: llm_enrichment_def Let_def
        split: if_splits sum.splits llm_outcome.splits)
  then obtain n :: nat where
    c: "enr_confidence r = min (0.5 + real n * 0.1) 0.8" and m: "enr_method r = LLM"
    by (metis enrichment_result.select_convs(3,4))
  have "0 \<le> min (0.5 + real n * 0.1) (0.8::real)" by simp
  moreover have "min (0.5 + real n * 0.1) (0.8::real) \<le> 0.8" by (rule min.cobounded2)
  ultimately show ?thesis using c m by simp
qed

lemma heuristic_method:
  "heuristic_enrichment py_str l sd = Some r \<Longrightarrow> enr_method r = HEURISTIC"
  by (auto simp add: heuristic_enrichment_def Let_def split: sum.splits if_splits)

lemma enrich_first:
  assumes "heuristic_enrichment py_str l sd \<noteq> None"
      and "enr_confidence (the (heuristic_enrichment py_str l sd)) > 0.7"
  shows "enrich_with api py_str env el l sd =
           (Some ((the (heuristic_enrichment py_str l sd))\<lparr>enr_processing_time := el\<rparr>),
            [HEURISTIC])"
  using assms by (simp add: enrich_with_def)

lemma enrich_second:
  assumes "\<not> (heuristic_enrichment py_str l sd \<noteq> None
             \<and> enr_confidence (the (heuristic_enrichment py_str l sd)) > 0.7)"
      and "api l sd \<noteq> None" and "enr_confidence (the (api l sd)) > 0.6"
  shows "enrich_with api py_str env el l sd =
           (Some ((the (api l sd))\<lparr>enr_processing_time := el\<rparr>), [HEURISTIC, EXTERNAL_API])"
  using assms by (simp add: enrich_with_def Let_def)

lemma enrich_third:
  assumes "\<not> (heuristic_enrichment py_str l sd \<noteq> None
             \<and> enr_confidence (the (heuristic_enrichment py_str l sd)) > 0.7)"
      and "\<not> (api l sd \<noteq> None \<and> enr_confidence (the (api l sd)) > 0.6)"
  shows "enrich_with api py_str env el l sd =
           (map_option (\<lambda>r. r\<lparr>enr_processing_time := el\<rparr>) (llm_enrichment py_str env l sd),
            [HEURISTIC, EXTERNAL_API, LLM])"
  using assms by (auto simp add: enrich_with_def Let_def)

lemma enrich_heuristic_only_above:
  assumes "fst (enrich_lead_data py_str env el l sd) = Some r" and "enr_method r = HEURISTIC"
  shows "enr_confidence r > 0.7 \<and> snd (enrich_lead_data py_str env el l sd) = [HEURISTIC]"
proof (cases "heuristic_enrichment py_str l sd \<noteq> None
             \<and> enr_confidence (the (heuristic_enrichment py_str l sd)) > 0.7")
  case True
  then show ?thesis
    using assms(1) enrich_first [of py_str l sd external_api_enrichment env el]
    by (auto simp add: enrich_lead_data_def)
next
  case False
  then have e: "enrich_lead_data py_str env el l sd =
      (map_option (\<lambda>r. r\<lparr>enr_processing_time := el\<rparr>) (llm_enrichment py_str env l sd),
       [HEURISTIC, EXTERNAL_API, LLM])"
    using enrich_third [of py_str l sd external_api_enrichment env el]
    by (simp add: enrich_lead_data_def external_api_enrichment_def)
  then obtain m where m: "llm_enrichment py_str env l sd = Some m"
    and r: "r = m\<lparr>enr_processing_time := el\<rparr>"
    using assms(1) by auto
  from llm_confidence_bounds [OF m] r assms(2) show ?thesis by simp
qed

lemma enrich_nothing:
  assumes "\<not> (heuristic_enrichment py_str l sd \<noteq> None
             \<and> enr_confidence (the (heuristic_enrichment py_str l sd)) > 0.7)"
      and "llm_enrichment py_str env l sd = None"
  shows "fst (enrich_lead_data py_str env el l sd) = None
         \<and> enrichment_confidence (enrichment_stage merge l (fst (enrich_lead_data py_str env el l sd)))
             = enrichment_confidence l"
proof -
  have "enrich_lead_data py_str env el l sd = (None, [HEURISTIC, EXTERNAL_API, LLM])"
    using assms enrich_third [of py_str l sd external_api_enrichment env el]
    by (simp add: enrich_lead_data_def external_api_enrichment_def)
  then show ?thesis by (simp add: enrichment_stage_def)
qed

lemma rich_industry: "infer_industry (lower rich_text) = Some ''Software''"
  unfolding rich_text_def by code_simp

lemma rich_employees: "estimate_employees (lower rich_text) = Inr (Some ''1-10'')"
  unfolding rich_text_def by code_simp

lemma rich_contact: "extract_contact_person rich_text = Some ''Jane Doe''"
  unfolding rich_text_def by code_simp

lemma rich_title: "extract_contact_title rich_text = Some ''Ceo''"
  unfolding rich_text_def by code_simp

lemma rich_year: "extract_founded_year rich_text = Inr (Some 2014)"
  unfolding rich_text_def by code_simp

lemma rich_heuristic:
  "heuristic_enrichment (\<lambda>v. []) (lead_at 1 0) [(''text_content'', PStr rich_text)] =
     Some \<lparr>enr_success = True,
           enr_data = [(''industry'', PStr ''Software''), (''employees'', PStr ''1-10''),
                       (''revenue_band'', PStr ''$0-1M''), (''contact_name'', PStr ''Jane Doe''),
                       (''contact_title'', PStr ''Ceo''), (''founded_year'', PInt 2014)],
           enr_method = HEURISTIC, enr_confidence = 0.9, enr_processing_time = 0\<rparr>"
proof -
  have t: "get_text_for_analysis (\<lambda>v. []) (lead_at 1 0) [(''text_content'', PStr rich_text)]
             = Inr rich_text"
    by (simp add: get_text_for_analysis_def has_key_def py_join_def Let_def lead_at_eq)
  show ?thesis
    unfolding heuristic_enrichment_def t
    by (simp add: rich_industry rich_employees rich_contact rich_title rich_year
        add_field_def Let_def estimate_revenue_from_employees_def)
qed

lemma answering_llm_result:
  "llm_enrichment (\<lambda>v. []) answering_llm (lead_at 1 0) [(''text_content'', PStr scenario_text)]
     = Some \<lparr>enr_success = True, enr_data = [(''industry'', PStr ''Software'')],
             enr_method = LLM, enr_confidence = 0.6, enr_processing_time = 0\<rparr>"
  using scenario_text_for_analysis [of "lead_at 1 0" "\<lambda>v. []"] bare_lead [of 1 0]
  by (simp add: llm_enrichment_def answering_llm_def Let_def)

text \<open>
  C2. \<open>enrich_lead_data\<close> runs the heuristic first and returns its result when its
  confidence exceeds 0.7, running nothing else; otherwise it runs the external API and
  returns its result when its confidence exceeds 0.6 (the code's placeholder returns
  nothing, so this never happens); otherwise it runs the LLM strategy and returns
  whatever that yields. A returned heuristic result has a confidence above 0.7. When no
  strategy is accepted the result is null, and the enrichment stage leaves the lead's
  \<open>enrichment_confidence\<close> as it was (0 on a new lead).
\<close>

theorem enrich_waterfall:
  "(heuristic_enrichment py_str l sd \<noteq> None
      \<and> enr_confidence (the (heuristic_enrichment py_str l sd)) > 0.7 \<longrightarrow>
      enrich_with api py_str env el l sd =
        (Some ((the (heuristic_enrichment py_str l sd))\<lparr>enr_processing_time := el\<rparr>),
         [HEURISTIC]))
   \<and> (\<not> (heuristic_enrichment py_str l sd \<noteq> None
           \<and> enr_confidence (the (heuristic_enrichment py_str l sd)) > 0.7)
       \<and> api l sd \<noteq> None \<and> enr_confidence (the (api l sd)) > 0.6 \<longrightarrow>
      enrich_with api py_str env el l sd =
        (Some ((the (api l sd))\<lparr>enr_processing_time := el\<rparr>), [HEURISTIC, EXTERNAL_API]))
   \<and> (\<not> (heuristic_enrichment py_str l sd \<noteq> None
           \<and> enr_confidence (the (heuristic_enrichment py_str l sd)) > 0.7)
       \<and> \<not> (api l sd \<noteq> None \<and> enr_confidence (the (api l sd)) > 0.6) \<longrightarrow>
      enrich_with api py_str env el l sd =
        (map_option (\<lambda>r. r\<lparr>enr_processing_time := el\<rparr>) (llm_enrichment py_str env l sd),
         [HEURISTIC, EXTERNAL_API, LLM]))
   \<and> enrich_lead_data py_str env el l sd = enrich_with (\<lambda>l sd. None) py_str env el l sd
   \<and> (fst (enrich_lead_data py_str env el l sd) = Some r \<and> enr_method r = HEURISTIC \<longrightarrow>
        enr_confidence r > 0.7 \<and> snd (enrich_lead_data py_str env el l sd) = [HEURISTIC])
   \<and> (\<not> (heuristic_enrichment py_str l sd \<noteq> None
           \<and> enr_confidence (the (heuristic_enrichment py_str l sd)) > 0.7)
       \<and> llm_enrichment py_str env l sd = None \<longrightarrow>
        fst (enrich_lead_data py_str env el l sd) = None
        \<and> enrichment_confidence
            (enrichment_stage merge l (fst (enrich_lead_data py_str env el l sd)))
          = enrichment_confidence l)"
proof -
  have stub: "enrich_lead_data py_str env el l sd = enrich_with (\<lambda>l sd. None) py_str env el l sd"
    unfolding enrich_lead_data_def external_api_enrichment_def ..
  show ?thesis
    using enrich_first [of py_str l sd api env el] enrich_second [of py_str l sd api env el]
      enrich_third [of py_str l sd api env el] stub
      enrich_heuristic_only_above [of py_str env el l sd r]
      enrich_nothing [of py_str l sd env el merge]
    by blast
qed

theorem enrich_waterfall_witness:
  "enrich_lead_data (\<lambda>v. []) no_llm 12 (lead_at 1 0) [(''text_content'', PStr rich_text)] =
     (Some \<lparr>enr_success = True,
            enr_data = [(''industry'', PStr ''Software''), (''employees'', PStr ''1-10''),
                        (''revenue_band'', PStr ''$0-1M''), (''contact_name'', PStr ''Jane Doe''),
                        (''contact_title'', PStr ''Ceo''), (''founded_year'', PInt 2014)],
            enr_method = HEURISTIC, enr_confidence = 0.9, enr_processing_time = 12\<rparr>,
      [HEURISTIC])
   \<and> enrich_with (\<lambda>l sd. Some api_result_065) (\<lambda>v. []) no_llm 12 (lead_at 1 0)
       [(''text_content'', PStr scenario_text)] =
     (Some (api_result_065\<lparr>enr_processing_time := 12\<rparr>), [HEURISTIC, EXTERNAL_API])
   \<and> enrich_lead_data (\<lambda>v. []) answering_llm 12 (lead_at 1 0)
       [(''text_content'', PStr scenario_text)] =
     (Some \<lparr>enr_success = True, enr_data = [(''industry'', PStr ''Software'')],
            enr_method = LLM, enr_confidence = 0.6, enr_processing_time = 12\<rparr>,
      [HEURISTIC, EXTERNAL_API, LLM])
   \<and> enrich_lead_data (\<lambda>v. []) no_llm 12 (lead_at 1 0)
       [(''text_content'', PStr scenario_text)] = (None, [HEURISTIC, EXTERNAL_API, LLM])
   \<and> enrichment_confidence
        (enrichment_stage (\<lambda>l r. l\<lparr>enrichment_confidence := enr_confidence r\<rparr>) (lead_at 1 0)
           (fst (enrich_lead_data (\<lambda>v. []) no_llm 12 (lead_at 1 0)
                   [(''text_content'', PStr scenario_text)]))) = 0"
proof -
  have bare: "\<not> truthy_str (company_name (lead_at 1 0))"
             "\<not> truthy_str (about_text (lead_at 1 0))"
    using bare_lead [of 1 0] by simp_all
  note sh = scenario_heuristic [of "lead_at 1 0" "\<lambda>v. []", OF bare]
  have nollm: "llm_enrichment (\<lambda>v. []) no_llm (lead_at 1 0)
                 [(''text_content'', PStr scenario_text)] = None"
    by (simp add: llm_without_credential no_llm_def)
  have hr: "heuristic_enrichment (\<lambda>v. []) (lead_at 1 0) [(''text_content'', PStr rich_text)]
              \<noteq> None
            \<and> enr_confidence (the (heuristic_enrichment (\<lambda>v. []) (lead_at 1 0)
                  [(''text_content'', PStr rich_text)])) > 0.7"
    unfolding rich_heuristic by simp
  have hs: "\<not> (heuristic_enrichment (\<lambda>v. []) (lead_at 1 0)
                  [(''text_content'', PStr scenario_text)] \<noteq> None
            \<and> enr_confidence (the (heuristic_enrichment (\<lambda>v. []) (lead_at 1 0)
                  [(''text_content'', PStr scenario_text)])) > 0.7)"
    unfolding sh by simp
  note t1 = enrich_waterfall [where py_str = "\<lambda>v. []" and l = "lead_at 1 0"
        and sd = "[(''text_content'', PStr rich_text)]" and api = "\<lambda>l sd. None"
        and env = no_llm and el = 12 and r = api_result_065 and merge = "\<lambda>l r. l"]
  have x1: "enrich_with (\<lambda>l sd. None) (\<lambda>v. []) no_llm 12 (lead_at 1 0)
      [(''text_content'', PStr rich_text)] =
     (Some ((the (heuristic_enrichment (\<lambda>v. []) (lead_at 1 0)
               [(''text_content'', PStr rich_text)]))\<lparr>enr_processing_time := 12\<rparr>),
      [HEURISTIC])"
    using t1 hr by blast
  have x2: "enrich_lead_data (\<lambda>v. []) no_llm 12 (lead_at 1 0)
      [(''text_content'', PStr rich_text)] =
     enrich_with (\<lambda>l sd. None) (\<lambda>v. []) no_llm 12 (lead_at 1 0)
      [(''text_content'', PStr rich_text)]"
    using t1 by blast
  have a: "enrich_lead_data (\<lambda>v. []) no_llm 12 (lead_at 1 0)
      [(''text_content'', PStr rich_text)] =
     (Some \<lparr>enr_success = True,
            enr_data = [(''industry'', PStr ''Software''), (''employees'', PStr ''1-10''),
                        (''revenue_band'', PStr ''$0-1M''), (''contact_name'', PStr ''Jane Doe''),
                        (''contact_title'', PStr ''Ceo''), (''founded_year'', PInt 2014)],
            enr_method = HEURISTIC, enr_confidence = 0.9, enr_processing_time = 12\<rparr>,
      [HEURISTIC])"
    unfolding x2 x1 rich_heuristic by simp
  note t2 = enrich_waterfall [where py_str = "\<lambda>v. []" and l = "lead_at 1 0"
        and sd = "[(''text_content'', PStr scenario_text)]"
        and api = "\<lambda>l sd. Some api_result_065" and env = no_llm and el = 12
        and r = api_result_065 and merge = "\<lambda>l r. l"]
  have ha: "Some api_result_065 \<noteq> None \<and> enr_confidence (the (Some api_result_065)) > 0.6"
    by (simp add: api_result_065_def)
  have b: "enrich_with (\<lambda>l sd. Some api_result_065) (\<lambda>v. []) no_llm 12 (lead_at 1 0)
       [(''text_content'', PStr scenario_text)] =
     (Some (api_result_065\<lparr>enr_processing_time := 12\<rparr>), [HEURISTIC, EXTERNAL_API])"
    using t2 hs ha by (metis option.sel)
  note t3 = enrich_waterfall [where py_str = "\<lambda>v. []" and l = "lead_at 1 0"
        and sd = "[(''text_content'', PStr scenario_text)]" and api = "\<lambda>l sd. None"
        and env = answering_llm and el = 12 and r = api_result_065 and merge = "\<lambda>l r. l"]
  have y1: "enrich_with (\<lambda>l sd. None) (\<lambda>v. []) answering_llm 12 (lead_at 1 0)
       [(''text_content'', PStr scenario_text)] =
     (map_option (\<lambda>r. r\<lparr>enr_processing_time := 12\<rparr>)
        (llm_enrichment (\<lambda>v. []) answering_llm (lead_at 1 0)
           [(''text_content'', PStr scenario_text)]),
      [HEURISTIC, EXTERNAL_API, LLM])"
    using t3 hs by blast
  have y2: "enrich_lead_data (\<lambda>v. []) answering_llm 12 (lead_at 1 0)
       [(''text_content'', PStr scenario_text)] =
     enrich_with (\<lambda>l sd. None) (\<lambda>v. []) answering_llm 12 (lead_at 1 0)
       [(''text_content'', PStr scenario_text)]"
    using t3 by blast
  have c: "enrich_lead_data (\<lambda>v. []) answering_llm 12 (lead_at 1 0)
       [(''text_content'', PStr scenario_text)] =
     (Some \<lparr>enr_success = True, enr_data = [(''industry'', PStr ''Software'')],
            enr_method = LLM, enr_confidence = 0.6, enr_processing_time = 12\<rparr>,
      [HEURISTIC, EXTERNAL_API, LLM])"
    unfolding y2 y1 answering_llm_result by simp
  note t4 = enrich_waterfall [where py_str = "\<lambda>v. []" and l = "lead_at 1 0"
        and sd = "[(''text_content'', PStr scenario_text)]" and api = "\<lambda>l sd. None"
        and env = no_llm and el = 12 and r = api_result_065
        and merge = "\<lambda>l r. l\<lparr>enrichment_confidence := enr_confidence r\<rparr>"]
  have d: "fst (enrich_lead_data (\<lambda>v. []) no_llm 12 (lead_at 1 0)
             [(''text_content'', PStr scenario_text)]) = None
         \<and> enrichment_confidence
             (enrichment_stage (\<lambda>l r. l\<lparr>enrichment_confidence := enr_confidence r\<rparr>)
                (lead_at 1 0)
                (fst (enrich_lead_data (\<lambda>v. []) no_llm 12 (lead_at 1 0)
                   [(''text_content'', PStr scenario_text)])))
           = enrichment_confidence (lead_at 1 0)"
    using t4 hs nollm by blast
  have e: "enrich_lead_data (\<lambda>v. []) no_llm 12 (lead_at 1 0)
       [(''text_content'', PStr scenario_text)] = (None, [HEURISTIC, EXTERNAL_API, LLM])"
    using scenario_enrich [of "lead_at 1 0" no_llm "\<lambda>v. []" 12] bare
    by (simp add: no_llm_def)
  have z: "enrichment_confidence (lead_at 1 0) = 0" by (simp add: lead_at_eq)
  have d2: "enrichment_confidence
             (enrichment_stage (\<lambda>l r. l\<lparr>enrichment_confidence := enr_confidence r\<rparr>)
                (lead_at 1 0)
                (fst (enrich_lead_data (\<lambda>v. []) no_llm 12 (lead_at 1 0)
                   [(''text_content'', PStr scenario_text)]))) = 0"
    using d z by auto
  show ?thesis
    using a b c e d2 by blast
qed

section \<open>Properties of the scraper\<close>

lemma add_if_bounds: "0 \<le> w \<Longrightarrow> 0 \<le> add_if b w"
  by (simp add: add_if_def)

lemma foldl_add_if_nonneg:
  "0 \<le> (acc::real) \<Longrightarrow> 0 \<le> foldl (\<lambda>acc prop. acc + add_if (P prop) 0.1) acc props"
proof (induction props arbitrary: acc)
  case Nil
  then show ?case by simp
next
  case (Cons p ps)
  have "0 \<le> acc + add_if (P p) 0.1" using Cons.prems by (simp add: add_if_def)
  from Cons.IH [OF this] show ?case by simp
qed

lemma foldl_add_if_mono:
  "(acc::real) \<le> foldl (\<lambda>acc prop. acc + add_if (P prop) 0.1) acc props"
proof (induction props arbitrary: acc)
  case Nil
  then show ?case by simp
next
  case (Cons p ps)
  have "acc \<le> acc + add_if (P p) 0.1" by (simp add: add_if_def)
  also have "\<dots> \<le> foldl (\<lambda>acc prop. acc + add_if (P prop) 0.1) (acc + add_if (P p) 0.1) ps"
    by (rule Cons.IH)
  finally show ?case by simp
qed

lemma json_ld_confidence_bounds:
  "0 \<le> calculate_json_ld_confidence py_str d \<and> calculate_json_ld_confidence py_str d \<le> 1"
proof -
  have "0 \<le> (0.0::real)
               + add_if (has_key ''name'' d \<or> has_key ''legalName'' d) 0.3
               + add_if (has_key ''description'' d) 0.2
               + add_if (has_key ''url'' d) 0.1
               + add_if (has_key ''email'' d \<or> has_key ''telephone'' d) 0.1
               + add_if (has_key ''address'' d) 0.2
               + add_if (has_key ''foundingDate'' d) 0.1"
    by (intro add_nonneg_nonneg add_if_bounds) simp_all
  from foldl_add_if_nonneg [OF this] show ?thesis
    by (simp only: calculate_json_ld_confidence_def Let_def) simp
qed

lemma json_ld_confidence_scenario:
  assumes "has_key ''name'' d" and "has_key ''description'' d" and "has_key ''url'' d"
      and "has_key ''address'' d"
  shows "0.8 \<le> calculate_json_ld_confidence py_str d"
proof -
  have "0.8 \<le> (0.0::real)
               + add_if (has_key ''name'' d \<or> has_key ''legalName'' d) 0.3
               + add_if (has_key ''description'' d) 0.2
               + add_if (has_key ''url'' d) 0.1
               + add_if (has_key ''email'' d \<or> has_key ''telephone'' d) 0.1
               + add_if (has_key ''address'' d) 0.2
               + add_if (has_key ''foundingDate'' d) 0.1"
    using assms by (simp add: add_if_def)
  also have "\<dots> \<le> foldl (\<lambda>acc prop. acc + add_if (py_in prop (lower (py_str (PDict d)))) 0.1)
      (0.0 + add_if (has_key ''name'' d \<or> has_key ''legalName'' d) 0.3
               + add_if (has_key ''description'' d) 0.2
               + add_if (has_key ''url'' d) 0.1
               + add_if (has_key ''email'' d \<or> has_key ''telephone'' d) 0.1
               + add_if (has_key ''address'' d) 0.2
               + add_if (has_key ''foundingDate'' d) 0.1) business_properties"
    by (rule foldl_add_if_mono)
  finally show ?thesis
    by (simp add: calculate_json_ld_confidence_def Let_def)
qed

lemma min1_bounds: "0 \<le> (x::real) \<Longrightarrow> 0 \<le> min x 1 \<and> min x 1 \<le> 1"
  by simp

lemma meta_confidence_bounds:
  "0 \<le> calculate_meta_confidence d \<and> calculate_meta_confidence d \<le> 1"
proof -
  have "0 \<le> (0.0::real)
               + add_if (get_truthy d ''title'') 0.3
               + add_if (get_truthy d ''description'') 0.3
               + add_if (get_truthy d ''og_title'' \<or> get_truthy d ''og_description'') 0.2
               + add_if (case map_of d ''links'' of None \<Rightarrow> False
                         | Some ls \<Rightarrow> py_len ls > 0) 0.1
               + add_if (get_truthy d ''og_image'') 0.1"
    by (intro add_nonneg_nonneg add_if_bounds) simp_all
  from min1_bounds [OF this] show ?thesis
    by (simp only: calculate_meta_confidence_def Let_def) simp
qed

lemma playwright_confidence_bounds:
  "0 \<le> calculate_playwright_confidence d \<and> calculate_playwright_confidence d \<le> 1"
proof -
  have "0 \<le> (0.3::real)
               + add_if (get_truthy d ''title'') 0.2
               + add_if (get_truthy d ''meta_description'' \<or> get_truthy d ''og_description'') 0.2
               + add_if (get_truthy d ''email'') 0.2
               + add_if (get_truthy d ''phone'') 0.1
               + add_if (get_truthy d ''links'' \<and> py_len (the (map_of d ''links'')) > 5) 0.1
               + add_if (get_truthy d ''potential_company_name'') 0.1"
    by (intro add_nonneg_nonneg add_if_bounds) simp_all
  from min1_bounds [OF this] show ?thesis
    by (simp only: calculate_playwright_confidence_def Let_def) simp
qed

lemma extract_json_ld_confidence:
  "0 \<le> confidence (extract_json_ld py_str got) \<and> confidence (extract_json_ld py_str got) \<le> 1"
  using json_ld_confidence_bounds [of py_str]
  by (simp add: extract_json_ld_def failed_def succeeded_def Let_def split: fetched.splits)

lemma extract_meta_data_confidence:
  "0 \<le> confidence (extract_meta_data got) \<and> confidence (extract_meta_data got) \<le> 1"
  using meta_confidence_bounds
  by (simp add: extract_meta_data_def failed_def succeeded_def Let_def split: fetched.splits)

lemma requests_fallback_confidence:
  "0 \<le> confidence (scrape_with_requests_fallback got t)
   \<and> confidence (scrape_with_requests_fallback got t) \<le> 1"
proof -
  have "0 \<le> calculate_playwright_confidence d * 0.8
           \<and> calculate_playwright_confidence d * 0.8 \<le> 1" for d
    using playwright_confidence_bounds [of d] by simp
  then show ?thesis
    by (simp add: scrape_with_requests_fallback_def failed_def succeeded_def Let_def
        split: requests_outcome.splits)
qed

lemma playwright_confidence:
  "0 \<le> confidence (fst (scrape_with_playwright got fb t))
   \<and> confidence (fst (scrape_with_playwright got fb t)) \<le> 1"
  using requests_fallback_confidence [of fb t] playwright_confidence_bounds
  by (simp add: scrape_with_playwright_def failed_def succeeded_def
      split: playwright_outcome.splits)

lemma scrape_confidence:
  "confidence (fst (scrape py_str w el)) \<in>
     {confidence (extract_json_ld py_str (w_json_ld w)),
      confidence (extract_meta_data (w_meta w)),
      confidence (fst (scrape_with_playwright (w_playwright w) (w_requests w)
                         (w_requests_time w)))}"
  by (simp add: scrape_def Let_def split: prod.splits)

lemma scrape_first:
  assumes "success (extract_json_ld py_str (w_json_ld w))"
      and "confidence (extract_json_ld py_str (w_json_ld w)) > 0.7"
  shows "scrape py_str w el =
           ((extract_json_ld py_str (w_json_ld w))\<lparr>processing_time := el\<rparr>, [JSON_LD])"
  using assms by (simp add: scrape_def)

lemma scrape_second:
  assumes "\<not> (success (extract_json_ld py_str (w_json_ld w))
             \<and> confidence (extract_json_ld py_str (w_json_ld w)) > 0.7)"
      and "success (extract_meta_data (w_meta w))"
      and "confidence (extract_meta_data (w_meta w)) > 0.5"
  shows "scrape py_str w el =
           ((extract_meta_data (w_meta w))\<lparr>processing_time := el\<rparr>,
            [JSON_LD, STRUCTURED_DATA])"
  using assms by (simp add: scrape_def Let_def)

lemma scrape_third:
  assumes "\<not> (success (extract_json_ld py_str (w_json_ld w))
             \<and> confidence (extract_json_ld py_str (w_json_ld w)) > 0.7)"
      and "\<not> (success (extract_meta_data (w_meta w))
             \<and> confidence (extract_meta_data (w_meta w)) > 0.5)"
  shows "scrape py_str w el =
           ((fst (scrape_with_playwright (w_playwright w) (w_requests w) (w_requests_time w)))
              \<lparr>processing_time := el\<rparr>,
            [JSON_LD, STRUCTURED_DATA, PLAYWRIGHT]
            @ snd (scrape_with_playwright (w_playwright w) (w_requests w) (w_requests_time w)))"
  using assms by (auto simp add: scrape_def Let_def split: prod.splits)

lemma playwright_calls:
  "snd (scrape_with_playwright got fb t) = [] \<and> result_method (fst (scrape_with_playwright got fb t)) = PLAYWRIGHT
   \<or> snd (scrape_with_playwright got fb t) = [REQUESTS]
     \<and> fst (scrape_with_playwright got fb t) = scrape_with_requests_fallback fb t"
  by (simp add: scrape_with_playwright_def failed_def succeeded_def
      split: playwright_outcome.splits)

lemma json_ld_page_scenario:
  assumes "scripts \<noteq> []"
      and "has_key ''name'' (merge_scripts scripts)"
      and "has_key ''description'' (merge_scripts scripts)"
      and "has_key ''url'' (merge_scripts scripts)"
      and "has_key ''address'' (merge_scripts scripts)"
  shows "success (extract_json_ld py_str (Response 200 scripts))
         \<and> result_method (extract_json_ld py_str (Response 200 scripts)) = JSON_LD
         \<and> confidence (extract_json_ld py_str (Response 200 scripts)) \<ge> 0.8"
proof -
  have "merge_scripts scripts \<noteq> []" using assms(2) by (auto simp add: has_key_def)
  then show ?thesis
    using assms(1) json_ld_confidence_scenario [OF assms(2-5), of py_str]
    by (simp add: extract_json_ld_def succeeded_def Let_def)
qed

lemma requests_data_plain:
  "requests_data plain_page =
     [(''title'', PStr ''Acme''), (''jsonld'', PList []),
      (''text_content'', PStr ''Mail info@acme.io''), (''links'', PList []),
      (''email'', PStr ''info@acme.io''), (''potential_company_name'', PStr ''acme'')]"
  by code_simp

text \<open>
  C1. \<open>scrape\<close> returns the result of the first tier whose gate is met (with the
  elapsed time stamped on it): the JSON-LD tier when it succeeds with confidence above
  0.7, and then no other tier runs; otherwise the meta tier when it succeeds with
  confidence above 0.5, and then the browser tier does not run; otherwise the browser
  tier, which is either the browser's own result or, when the browser cannot run, the
  result of the plain-request fallback. A page whose JSON-LD has name, description, url
  and address is answered by the JSON-LD tier alone, with confidence at least 0.7.
\<close>

theorem scrape_tiers:
  "(success (extract_json_ld py_str (w_json_ld w))
      \<and> confidence (extract_json_ld py_str (w_json_ld w)) > 0.7 \<longrightarrow>
      scrape py_str w el =
        ((extract_json_ld py_str (w_json_ld w))\<lparr>processing_time := el\<rparr>, [JSON_LD]))
   \<and> (\<not> (success (extract_json_ld py_str (w_json_ld w))
           \<and> confidence (extract_json_ld py_str (w_json_ld w)) > 0.7)
       \<and> success (extract_meta_data (w_meta w))
       \<and> confidence (extract_meta_data (w_meta w)) > 0.5 \<longrightarrow>
      scrape py_str w el =
        ((extract_meta_data (w_meta w))\<lparr>processing_time := el\<rparr>, [JSON_LD, STRUCTURED_DATA]))
   \<and> (\<not> (success (extract_json_ld py_str (w_json_ld w))
           \<and> confidence (extract_json_ld py_str (w_json_ld w)) > 0.7)
       \<and> \<not> (success (extract_meta_data (w_meta w))
           \<and> confidence (extract_meta_data (w_meta w)) > 0.5) \<longrightarrow>
      scrape py_str w el =
        ((fst (scrape_with_playwright (w_playwright w) (w_requests w) (w_requests_time w)))
           \<lparr>processing_time := el\<rparr>,
         [JSON_LD, STRUCTURED_DATA, PLAYWRIGHT]
         @ snd (scrape_with_playwright (w_playwright w) (w_requests w) (w_requests_time w))))
   \<and> (snd (scrape_with_playwright (w_playwright w) (w_requests w) (w_requests_time w)) = []
        \<and> result_method (fst (scrape_with_playwright (w_playwright w) (w_requests w)
                          (w_requests_time w))) = PLAYWRIGHT
      \<or> snd (scrape_with_playwright (w_playwright w) (w_requests w) (w_requests_time w))
          = [REQUESTS]
        \<and> fst (scrape_with_playwright (w_playwright w) (w_requests w) (w_requests_time w))
          = scrape_with_requests_fallback (w_requests w) (w_requests_time w))
   \<and> (w_json_ld w = Response 200 scripts \<and> scripts \<noteq> []
       \<and> has_key ''name'' (merge_scripts scripts)
       \<and> has_key ''description'' (merge_scripts scripts)
       \<and> has_key ''url'' (merge_scripts scripts)
       \<and> has_key ''address'' (merge_scripts scripts) \<longrightarrow>
      result_method (fst (scrape py_str w el)) = JSON_LD
      \<and> confidence (fst (scrape py_str w el)) \<ge> 0.7
      \<and> snd (scrape py_str w el) = [JSON_LD])"
proof -
  have page: "w_json_ld w = Response 200 scripts \<Longrightarrow> scripts \<noteq> [] \<Longrightarrow>
       has_key ''name'' (merge_scripts scripts) \<Longrightarrow>
       has_key ''description'' (merge_scripts scripts) \<Longrightarrow>
       has_key ''url'' (merge_scripts scripts) \<Longrightarrow>
       has_key ''address'' (merge_scripts scripts) \<Longrightarrow>
      result_method (fst (scrape py_str w el)) = JSON_LD
      \<and> confidence (fst (scrape py_str w el)) \<ge> 0.7
      \<and> snd (scrape py_str w el) = [JSON_LD]"
  proof -
    assume a: "w_json_ld w = Response 200 scripts" "scripts \<noteq> []"
       "has_key ''name'' (merge_scripts scripts)"
       "has_key ''description'' (merge_scripts scripts)"
       "has_key ''url'' (merge_scripts scripts)"
       "has_key ''address'' (merge_scripts scripts)"
    have s: "success (extract_json_ld py_str (w_json_ld w))
         \<and> result_method (extract_json_ld py_str (w_json_ld w)) = JSON_LD
         \<and> confidence (extract_json_ld py_str (w_json_ld w)) \<ge> 0.8"
      using json_ld_page_scenario [OF a(2-6), of py_str] a(1) by simp
    then have "scrape py_str w el =
        ((extract_json_ld py_str (w_json_ld w))\<lparr>processing_time := el\<rparr>, [JSON_LD])"
      using scrape_first [of py_str w el] by simp
    then show ?thesis using s by simp
  qed
  show ?thesis
    using scrape_first [of py_str w el] scrape_second [of py_str w el]
      scrape_third [of py_str w el]
      playwright_calls [of "w_playwright w" "w_requests w" "w_requests_time w"] page
    by blast
qed

theorem scrape_tiers_witness:
  "scrape (\<lambda>v. []) json_ld_world 1.5 =
     (\<lparr>success = True,
       data = [(''@type'', PStr ''Organization''), (''name'', PStr ''Acme''),
               (''description'', PStr ''Widgets''), (''url'', PStr ''https://acme.io''),
               (''address'', PStr ''1 Main St'')],
       result_method = JSON_LD, confidence = 0.8, processing_time = 1.5, error_message = None\<rparr>,
      [JSON_LD])
   \<and> scrape (\<lambda>v. []) meta_world 1.5 =
     (\<lparr>success = True,
       data = [(''title'', PStr ''Acme''), (''description'', PStr ''Widgets''),
               (''links'', PList [])],
       result_method = STRUCTURED_DATA, confidence = 0.6, processing_time = 1.5,
       error_message = None\<rparr>,
      [JSON_LD, STRUCTURED_DATA])
   \<and> scrape (\<lambda>v. []) browser_world 1.5 =
     (\<lparr>success = True, data = [(''title'', PStr ''Acme'')], result_method = PLAYWRIGHT,
       confidence = 0.5, processing_time = 1.5, error_message = None\<rparr>,
      [JSON_LD, STRUCTURED_DATA, PLAYWRIGHT])
   \<and> scrape (\<lambda>v. []) fallback_world 1.5 =
     (\<lparr>success = True, data = requests_data plain_page, result_method = REQUESTS,
       confidence = 0.64, processing_time = 1.5, error_message = None\<rparr>,
      [JSON_LD, STRUCTURED_DATA, PLAYWRIGHT, REQUESTS])"
proof -
  have j1: "extract_json_ld (\<lambda>v. []) (w_json_ld json_ld_world) =
     \<lparr>success = True,
       data = [(''@type'', PStr ''Organization''), (''name'', PStr ''Acme''),
               (''description'', PStr ''Widgets''), (''url'', PStr ''https://acme.io''),
               (''address'', PStr ''1 Main St'')],
       result_method = JSON_LD, confidence = 0.8, processing_time = 0, error_message = None\<rparr>"
    by (simp add: json_ld_world_def extract_json_ld_def merge_scripts_def succeeded_def
        calculate_json_ld_confidence_def has_key_def add_if_def business_properties_def
        lower_def Let_def)
  have a: "scrape (\<lambda>v. []) json_ld_world 1.5 =
     ((extract_json_ld (\<lambda>v. []) (w_json_ld json_ld_world))\<lparr>processing_time := 1.5\<rparr>,
      [JSON_LD])"
    using scrape_tiers [where py_str = "\<lambda>v. []" and w = json_ld_world and el = "1.5"
        and scripts = "[]"]
    unfolding j1 by simp
  have j2: "extract_json_ld (\<lambda>v. []) (w_json_ld meta_world) =
     failed JSON_LD 0 ''No JSON-LD found''"
    by (simp add: meta_world_def extract_json_ld_def)
  have m2: "extract_meta_data (w_meta meta_world) =
     \<lparr>success = True,
       data = [(''title'', PStr ''Acme''), (''description'', PStr ''Widgets''),
               (''links'', PList [])],
       result_method = STRUCTURED_DATA, confidence = 0.6, processing_time = 0,
       error_message = None\<rparr>"
    by (simp add: meta_world_def extract_meta_data_def meta_data_def add_tags_def
        calculate_meta_confidence_def get_truthy_def add_if_def succeeded_def Let_def)
  have b: "scrape (\<lambda>v. []) meta_world 1.5 =
     ((extract_meta_data (w_meta meta_world))\<lparr>processing_time := 1.5\<rparr>,
      [JSON_LD, STRUCTURED_DATA])"
    using scrape_tiers [where py_str = "\<lambda>v. []" and w = meta_world and el = "1.5"
        and scripts = "[]"]
    unfolding j2 m2 by (simp add: failed_def)
  have j3: "extract_json_ld (\<lambda>v. []) (w_json_ld browser_world) = failed JSON_LD 0 ''HTTP 404''"
    by (simp add: browser_world_def extract_json_ld_def digit_char_def)
  have m3: "extract_meta_data (w_meta browser_world) = failed STRUCTURED_DATA 0 ''HTTP 404''"
    by (simp add: browser_world_def extract_meta_data_def digit_char_def)
  have p3: "scrape_with_playwright (w_playwright browser_world) (w_requests browser_world)
              (w_requests_time browser_world) =
     (\<lparr>success = True, data = [(''title'', PStr ''Acme'')], result_method = PLAYWRIGHT,
       confidence = 0.5, processing_time = 0, error_message = None\<rparr>, [])"
    by (simp add: browser_world_def scrape_with_playwright_def succeeded_def
        calculate_playwright_confidence_def get_truthy_def add_if_def Let_def)
  have c: "scrape (\<lambda>v. []) browser_world 1.5 =
     ((fst (scrape_with_playwright (w_playwright browser_world) (w_requests browser_world)
              (w_requests_time browser_world)))\<lparr>processing_time := 1.5\<rparr>,
      [JSON_LD, STRUCTURED_DATA, PLAYWRIGHT]
      @ snd (scrape_with_playwright (w_playwright browser_world) (w_requests browser_world)
               (w_requests_time browser_world)))"
    using scrape_tiers [where py_str = "\<lambda>v. []" and w = browser_world and el = "1.5"
        and scripts = "[]"]
    unfolding j3 m3 by (simp add: failed_def)
  have j4: "extract_json_ld (\<lambda>v. []) (w_json_ld fallback_world) = failed JSON_LD 0 ''HTTP 404''"
    by (simp add: fallback_world_def extract_json_ld_def digit_char_def)
  have m4: "extract_meta_data (w_meta fallback_world) = failed STRUCTURED_DATA 0 ''HTTP 404''"
    by (simp add: fallback_world_def extract_meta_data_def digit_char_def)
  have c4: "calculate_playwright_confidence (requests_data plain_page) = 0.8"
    unfolding requests_data_plain
    by (simp add: calculate_playwright_confidence_def get_truthy_def add_if_def Let_def)
  have n4: "requests_data plain_page \<noteq> []"
    unfolding requests_data_plain by simp
  have p4: "scrape_with_playwright (w_playwright fallback_world) (w_requests fallback_world)
              (w_requests_time fallback_world) =
     (\<lparr>success = True, data = requests_data plain_page, result_method = REQUESTS,
       confidence = 0.64, processing_time = 2, error_message = None\<rparr>, [REQUESTS])"
    using n4
    by (simp add: fallback_world_def scrape_with_playwright_def compat_error_def
        scrape_with_requests_fallback_def succeeded_def c4 Let_def)
  have d: "scrape (\<lambda>v. []) fallback_world 1.5 =
     ((fst (scrape_with_playwright (w_playwright fallback_world) (w_requests fallback_world)
              (w_requests_time fallback_world)))\<lparr>processing_time := 1.5\<rparr>,
      [JSON_LD, STRUCTURED_DATA, PLAYWRIGHT]
      @ snd (scrape_with_playwright (w_playwright fallback_world) (w_requests fallback_world)
               (w_requests_time fallback_world)))"
    using scrape_tiers [where py_str = "\<lambda>v. []" and w = fallback_world and el = "1.5"
        and scripts = "[]"]
    unfolding j4 m4 by (simp add: failed_def)
  show ?thesis
    unfolding a b c d j1 m2 p3 p4 by simp
qed

section \<open>Confidence values\<close>

text \<open>
  C10. Every confidence the scraper produces (by the JSON-LD tier, the meta tier, the
  browser tier, the plain-request fallback, and so by \<open>scrape\<close>) lies in [0, 1]; a
  result of the heuristic strategy has a confidence in [0, 0.9], and a result of the LLM
  strategy a confidence in [0, 0.8].
\<close>

theorem confidences_bounded:
  "0 \<le> confidence (extract_json_ld py_str got_json) \<and> confidence (extract_json_ld py_str got_json) \<le> 1
   \<and> 0 \<le> confidence (extract_meta_data got_meta) \<and> confidence (extract_meta_data got_meta) \<le> 1
   \<and> 0 \<le> confidence (fst (scrape_with_playwright got_browser got_plain t))
   \<and> confidence (fst (scrape_with_playwright got_browser got_plain t)) \<le> 1
   \<and> 0 \<le> confidence (scrape_with_requests_fallback got_plain t)
   \<and> confidence (scrape_with_requests_fallback got_plain t) \<le> 1
   \<and> 0 \<le> confidence (fst (scrape py_str w el)) \<and> confidence (fst (scrape py_str w el)) \<le> 1
   \<and> (heuristic_enrichment py_str l sd = Some r \<longrightarrow>
        0 \<le> enr_confidence r \<and> enr_confidence r \<le> 0.9 \<and> enr_confidence r \<le> 1)
   \<and> (llm_enrichment py_str env l sd = Some r' \<longrightarrow>
        0 \<le> enr_confidence r' \<and> enr_confidence r' \<le> 0.8 \<and> enr_confidence r' \<le> 1)"
proof -
  have s: "0 \<le> confidence (fst (scrape py_str w el))
           \<and> confidence (fst (scrape py_str w el)) \<le> 1"
    using scrape_confidence [of py_str w el] extract_json_ld_confidence [of py_str "w_json_ld w"]
      extract_meta_data_confidence [of "w_meta w"]
      playwright_confidence [of "w_playwright w" "w_requests w" "w_requests_time w"]
    by auto
  have h: "heuristic_enrichment py_str l sd = Some r \<Longrightarrow>
        0 \<le> enr_confidence r \<and> enr_confidence r \<le> 0.9 \<and> enr_confidence r \<le> 1"
    using heuristic_confidence_bounds [of py_str l sd r] by simp
  have m: "llm_enrichment py_str env l sd = Some r' \<Longrightarrow>
        0 \<le> enr_confidence r' \<and> enr_confidence r' \<le> 0.8 \<and> enr_confidence r' \<le> 1"
    using llm_confidence_bounds [of py_str env l sd r'] by simp
  show ?thesis
    using extract_json_ld_confidence [of py_str got_json] extract_meta_data_confidence [of got_meta]
      playwright_confidence [of got_browser got_plain t] requests_fallback_confidence [of got_plain t] s h m
    by blast
qed

theorem confidences_bounded_witness:
  "heuristic_enrichment (\<lambda>v. []) (lead_at 1 0) [(''text_content'', PStr rich_text)] \<noteq> None
   \<and> enr_confidence (the (heuristic_enrichment (\<lambda>v. []) (lead_at 1 0)
                            [(''text_content'', PStr rich_text)])) \<le> 0.9
   \<and> llm_enrichment (\<lambda>v. []) answering_llm (lead_at 1 0)
        [(''text_content'', PStr scenario_text)] \<noteq> None
   \<and> enr_confidence (the (llm_enrichment (\<lambda>v. []) answering_llm (lead_at 1 0)
                            [(''text_content'', PStr scenario_text)])) \<le> 0.8
   \<and> 0 \<le> confidence (fst (scrape (\<lambda>v. []) json_ld_world 1.5))
   \<and> confidence (fst (scrape (\<lambda>v. []) json_ld_world 1.5)) \<le> 1"
proof -
  obtain r where r: "heuristic_enrichment (\<lambda>v. []) (lead_at 1 0)
      [(''text_content'', PStr rich_text)] = Some r"
    using rich_heuristic by blast
  obtain r' where r': "llm_enrichment (\<lambda>v. []) answering_llm (lead_at 1 0)
      [(''text_content'', PStr scenario_text)] = Some r'"
    using answering_llm_result by blast
  note t = confidences_bounded [where py_str = "\<lambda>v. []" and l = "lead_at 1 0"
      and sd = "[(''text_content'', PStr rich_text)]" and r = r and w = json_ld_world
      and el = "1.5" and got_json = NoSession and got_meta = NoSession and got_browser = PwImportError
      and got_plain = "RqRaised []" and t = 0 and env = answering_llm and r' = r']
  note u = confidences_bounded [where py_str = "\<lambda>v. []" and l = "lead_at 1 0"
      and sd = "[(''text_content'', PStr scenario_text)]" and r = r and w = json_ld_world
      and el = "1.5" and got_json = NoSession and got_meta = NoSession and got_browser = PwImportError
      and got_plain = "RqRaised []" and t = 0 and env = answering_llm and r' = r']
  have a: "enr_confidence r \<le> 0.9" using t r by blast
  have b: "enr_confidence r' \<le> 0.8" using u r' by blast
  have c: "0 \<le> confidence (fst (scrape (\<lambda>v. []) json_ld_world 1.5))
           \<and> confidence (fst (scrape (\<lambda>v. []) json_ld_world 1.5)) \<le> 1"
    using t by blast
  show ?thesis
    unfolding r r' using a b c by simp
qed

end
